theory Spec2Isabelle
  imports Main "HOL-Library.Sublist"
begin

section \<open>Data model\<close>

text \<open>
  The credential record of \<^verbatim>\<open>data/types\<close> (\<^verbatim>\<open>User\<close>), reduced to the fields the
  routes read: \<^verbatim>\<open>id\<close>, \<^verbatim>\<open>email\<close>, \<^verbatim>\<open>password\<close> (the stored hash), \<^verbatim>\<open>totpSecret\<close>
  (the empty string when the user is not enrolled) and \<^verbatim>\<open>role\<close>.
\<close>

record user =
  user_id :: nat
  email :: string
  password :: string
  totpSecret :: string
  role :: string

record basket =
  basket_id :: nat
  UserId :: nat

text \<open>
  The object \<^verbatim>\<open>utils.queryResultToJson\<close> wraps a user in, \<^verbatim>\<open>{ data: User, bid }\<close>:
  the identity snapshot the session registry stores. \<^verbatim>\<open>bid\<close> is absent until a route
  assigns it.
\<close>

record snapshot =
  data :: user
  bid :: "nat option"

text \<open>
  The payload of a signed token. The routes sign three shapes of object and read the
  decoded payload by destructuring, so a payload is a bag of optional properties:
  \<^verbatim>\<open>{ userId, type }\<close> (login, pending second factor), \<^verbatim>\<open>{ secret, type }\<close>
  (2FA status, setup token) and the wrapped user \<^verbatim>\<open>{ data }\<close> (a session token). A
  property that is \<^verbatim>\<open>undefined\<close> is \<open>None\<close>.
\<close>

record payload =
  userId :: "nat option"
  type_tag :: "string option"
  secret :: "string option"
  payload_data :: "user option"

definition no_properties :: payload where
  "no_properties = \<lparr>userId = None, type_tag = None, secret = None, payload_data = None\<rparr>"

text \<open>An entry of \<^verbatim>\<open>failedLoginAttempts\<close> (login.ts, line 33).\<close>

record attempt =
  count :: nat
  lastAttempt :: int

datatype dbop = FindOne | FindByPk | Save | FindOrCreate

text \<open>
  The collaborators of the routes that are not part of the routes' files, as they answer
  during one request: the primitives of \<^verbatim>\<open>lib/insecurity\<close> (\<^verbatim>\<open>hashPassword\<close>,
  \<^verbatim>\<open>hash\<close>, \<^verbatim>\<open>constantTimeCompare\<close>, \<^verbatim>\<open>authorize\<close>, \<^verbatim>\<open>verify\<close>, \<^verbatim>\<open>decode\<close>),
  \<^verbatim>\<open>otplib.authenticator\<close> (\<^verbatim>\<open>check\<close>, and the value \<^verbatim>\<open>generateSecret()\<close> returns),
  which calls of the persistence layer reject (\<open>down\<close>), and which tokens are past
  their expiry when the request is served (\<open>expired\<close>). \<^verbatim>\<open>security.decode\<close> answers
  \<open>None\<close> when it returns \<^verbatim>\<open>null\<close> or \<^verbatim>\<open>undefined\<close>.
\<close>

record env =
  hashPassword :: "string \<Rightarrow> string"
  hash :: "string \<Rightarrow> string"
  constantTimeCompare :: "string \<Rightarrow> string \<Rightarrow> bool"
  authorize :: "payload \<Rightarrow> string"
  security_verify :: "string \<Rightarrow> bool"
  decode :: "string \<Rightarrow> payload option"
  check :: "string \<Rightarrow> string \<Rightarrow> bool"
  generateSecret :: string
  down :: "dbop \<Rightarrow> bool"
  expired :: "string \<Rightarrow> bool"

text \<open>
  The mutable state the routes share: the failed-login tracker of \<^verbatim>\<open>login()\<close>, the
  token map of \<^verbatim>\<open>security.authenticatedUsers\<close>, the two tables of the persistence layer,
  and a log of the plaintexts handed to the hashing primitives (\<open>hashed\<close>), which records
  that a request reached the hashing step.
\<close>

record state =
  failedLoginAttempts :: "string \<rightharpoonup> attempt"
  tokenMap :: "string \<rightharpoonup> snapshot"
  users :: "user list"
  baskets :: "basket list"
  hashed :: "string list"

text \<open>
  What a handler does with \<^verbatim>\<open>res\<close> and \<^verbatim>\<open>next\<close>: \<open>Send\<close> is
  \<^verbatim>\<open>res.status(n).send(..)\<close> or \<^verbatim>\<open>res.json(..)\<close> (status 200 when none is set),
  \<open>SendFile\<close> is \<^verbatim>\<open>res.sendFile(path)\<close>, and \<open>Next\<close> is \<^verbatim>\<open>next(error)\<close>, with
  the status set before it, if any, and the error's message.
\<close>

datatype body =
    Empty
  | Text string
  | TotpTokenRequired string
  | Authentication string nat string
  | SetupData string string string
  | SetupDone

datatype response =
    Send nat body
  | SendFile string
  | Next "nat option" string

section \<open>Persistence and session registry\<close>

text \<open>
  Modelled from the spec: the persistence layer (\<^verbatim>\<open>models/user\<close>, \<^verbatim>\<open>models/basket\<close>)
  is not among the sources. Section 6 of the specification gives its contract:
  \<^verbatim>\<open>findCredentialByEmailAndHash(email, hash) -> record|absent\<close>,
  \<^verbatim>\<open>findCredentialById(id) -> record|absent\<close>, \<^verbatim>\<open>saveCredential(record)\<close> and
  \<^verbatim>\<open>findOrCreateBasket(identityId) -> basketId\<close> (create-if-absent, idempotent).
  The tables are lists of rows; a new basket takes the next free id.
\<close>

definition findOne :: "user list \<Rightarrow> string \<Rightarrow> string \<Rightarrow> user option" where
  "findOne us e h = find (\<lambda>u. email u = e \<and> password u = h) us"

definition findByPk :: "user list \<Rightarrow> nat \<Rightarrow> user option" where
  "findByPk us i = find (\<lambda>u. user_id u = i) us"

definition save :: "user \<Rightarrow> user list \<Rightarrow> user list" where
  "save u us = map (\<lambda>v. if user_id v = user_id u then u else v) us"

definition findOrCreate :: "nat \<Rightarrow> basket list \<Rightarrow> basket \<times> basket list" where
  "findOrCreate i bs =
     (case find (\<lambda>b. UserId b = i) bs of
        Some b \<Rightarrow> (b, bs)
      | None \<Rightarrow>
          (let b = \<lparr>basket_id = Suc (fold max (map basket_id bs) 0), UserId = i\<rparr>
           in (b, bs @ [b])))"

text \<open>
  Modelled from the spec: the session registry \<^verbatim>\<open>security.authenticatedUsers\<close> of
  \<^verbatim>\<open>lib/insecurity\<close> is not among the sources. Section 4.5 of the specification:
  \<^verbatim>\<open>put(token, identitySnapshot)\<close> registers a new mapping; \<^verbatim>\<open>from(request)\<close> resolves
  the bearer token carried by the request to its registered identity, returning absent if
  missing, expired, or never registered; \<^verbatim>\<open>updateFrom(request, newSnapshot)\<close> replaces
  the snapshot for the token resolved from the request. A request carries its bearer token
  as \<open>string option\<close>; whether a token is past its expiry is read from the collaborators
  of the request that looks it up (the check is made at lookup time, as section 3 allows).
\<close>

definition put :: "string \<Rightarrow> snapshot \<Rightarrow> state \<Rightarrow> state" where
  "put token u s = s\<lparr>tokenMap := (tokenMap s)(token \<mapsto> u)\<rparr>"

definition from_request :: "env \<Rightarrow> state \<Rightarrow> string option \<Rightarrow> snapshot option" where
  "from_request env s bearer =
     (case bearer of
        None \<Rightarrow> None
      | Some token \<Rightarrow> if expired env token then None else tokenMap s token)"

definition updateFrom :: "string option \<Rightarrow> snapshot \<Rightarrow> state \<Rightarrow> state" where
  "updateFrom bearer u s = (case bearer of None \<Rightarrow> s | Some token \<Rightarrow> put token u s)"

section \<open>The login route (routes/login.ts)\<close>

definition FAILED_ATTEMPTS_LIMIT :: nat where
  "FAILED_ATTEMPTS_LIMIT = 5"

definition LOCK_TIME_MS :: int where
  "LOCK_TIME_MS = 15 * 60 * 1000"

definition needs_second_factor :: string where
  "needs_second_factor = ''password_valid_needs_second_factor_token''"

definition too_many :: string where
  "too_many = ''Too many failed login attempts. Please try again later.''"

definition invalid_login :: string where
  "invalid_login = ''Invalid email or password.''"

definition persistence_error :: string where
  "persistence_error = ''persistence call rejected''"

record login_request =
  body_email :: "string option"
  body_password :: "string option"
  ip :: string

text \<open>\<^verbatim>\<open>req.body.x || ''\<close>: an absent property reads as the empty string.\<close>

definition or_empty :: "string option \<Rightarrow> string" where
  "or_empty x = (case x of None \<Rightarrow> [] | Some v \<Rightarrow> v)"

text \<open>\<^verbatim>\<open>const key = `${email}:${req.ip}`\<close> (line 36).\<close>

definition lockout_key :: "login_request \<Rightarrow> string" where
  "lockout_key req = or_empty (body_email req) @ '':'' @ ip req"

text \<open>
  Lines 64 and 75, \<^verbatim>\<open>if (failedLoginAttempts[key]) { delete failedLoginAttempts[key] }\<close>,
  and lines 79 to 84, the entry created or incremented on a failed attempt.
\<close>

definition recordSuccess :: "string \<Rightarrow> state \<Rightarrow> state" where
  "recordSuccess key s = s\<lparr>failedLoginAttempts := (failedLoginAttempts s)(key := None)\<rparr>"

definition recordFailure :: "string \<Rightarrow> int \<Rightarrow> state \<Rightarrow> state" where
  "recordFailure key now s =
     (case failedLoginAttempts s key of
        None \<Rightarrow>
          s\<lparr>failedLoginAttempts := (failedLoginAttempts s)(key \<mapsto> \<lparr>count = 1, lastAttempt = now\<rparr>)\<rparr>
      | Some a \<Rightarrow>
          s\<lparr>failedLoginAttempts :=
              (failedLoginAttempts s)(key \<mapsto> \<lparr>count = count a + 1, lastAttempt = now\<rparr>)\<rparr>)"

text \<open>
  \<^verbatim>\<open>afterLogin\<close> (lines 17 to 28). The token is signed before \<^verbatim>\<open>user.bid\<close> is assigned,
  so its payload is the wrapped user without a basket id; the registered snapshot has it.
  A rejected \<^verbatim>\<open>findOrCreate\<close> goes to \<^verbatim>\<open>next(error)\<close>. The challenge bookkeeping
  (\<^verbatim>\<open>verifyPostLoginChallenges\<close>) observes and does not branch the handler; it is left out.
\<close>

definition afterLogin :: "env \<Rightarrow> user \<Rightarrow> state \<Rightarrow> response \<times> state" where
  "afterLogin env u s =
     (if down env FindOrCreate then (Next None persistence_error, s)
      else
        (let (b, bs) = findOrCreate (user_id u) (baskets s);
             token = authorize env (no_properties\<lparr>payload_data := Some u\<rparr>)
         in (Send 200 (Authentication token (basket_id b) (email u)),
             put token \<lparr>data = u, bid = Some (basket_id b)\<rparr> (s\<lparr>baskets := bs\<rparr>))))"

text \<open>
  The \<^verbatim>\<open>try\<close> block of the handler (lines 47 to 89). \<^verbatim>\<open>user.data?.id\<close> is a truthiness
  test: no record, or a record whose id is 0, takes the last branch. A rejected lookup
  goes to \<^verbatim>\<open>next(error)\<close>. The challenge bookkeeping of line 48
  (\<^verbatim>\<open>verifyPreLoginChallenges\<close>) observes the request and does not branch; it is left out.
\<close>

definition login_try :: "env \<Rightarrow> login_request \<Rightarrow> int \<Rightarrow> string \<Rightarrow> state \<Rightarrow> response \<times> state" where
  "login_try env req now key s =
     (let email = or_empty (body_email req);
          hashedPassword = hashPassword env (or_empty (body_password req));
          s1 = s\<lparr>hashed := hashed s @ [or_empty (body_password req)]\<rparr>
      in if down env FindOne then (Next None persistence_error, s1)
         else
           (case findOne (users s1) email hashedPassword of
              None \<Rightarrow> (Send 401 (Text invalid_login), recordFailure key now s1)
            | Some u \<Rightarrow>
                if user_id u \<noteq> 0 \<and> totpSecret u \<noteq> [] then
                  (Send 401 (TotpTokenRequired (authorize env
                     (no_properties\<lparr>userId := Some (user_id u),
                                     type_tag := Some needs_second_factor\<rparr>))),
                   recordSuccess key s1)
                else if user_id u \<noteq> 0 then afterLogin env u (recordSuccess key s1)
                else (Send 401 (Text invalid_login), recordFailure key now s1)))"

text \<open>The handler \<^verbatim>\<open>login()\<close> returns (lines 34 to 90); \<open>now\<close> is \<^verbatim>\<open>Date.now()\<close>.\<close>

definition login :: "env \<Rightarrow> login_request \<Rightarrow> int \<Rightarrow> state \<Rightarrow> response \<times> state" where
  "login env req now s =
     (let key = lockout_key req
      in case failedLoginAttempts s key of
           None \<Rightarrow> login_try env req now key s
         | Some a \<Rightarrow>
             if count a \<ge> FAILED_ATTEMPTS_LIMIT then
               if now - lastAttempt a < LOCK_TIME_MS then (Send 429 (Text too_many), s)
               else login_try env req now key (recordSuccess key s)
             else login_try env req now key s)"

text \<open>
  The two tests of lines 38 and 39 together: an entry exists, its count has reached the
  limit, and less than the lock time has passed since its last failure.
\<close>

definition locked_out :: "state \<Rightarrow> string \<Rightarrow> int \<Rightarrow> bool" where
  "locked_out s key now =
     (case failedLoginAttempts s key of
        None \<Rightarrow> False
      | Some a \<Rightarrow> count a \<ge> FAILED_ATTEMPTS_LIMIT \<and> now - lastAttempt a < LOCK_TIME_MS)"

section \<open>The second-factor routes (routes/2fa.ts)\<close>

definition totp_setup_secret :: string where
  "totp_setup_secret = ''totp_setup_secret''"

text \<open>
  \<^verbatim>\<open>security.verify(token) && security.decode(token)\<close>, then destructured: when the
  signature check answers \<^verbatim>\<open>false\<close> every property read from it is \<^verbatim>\<open>undefined\<close>;
  when it passes, the decoded payload is read, and destructuring \<^verbatim>\<open>null\<close> throws
  (\<open>None\<close>).
\<close>

definition verified_payload :: "env \<Rightarrow> string \<Rightarrow> payload option" where
  "verified_payload env token =
     (if security_verify env token then decode env token else Some no_properties)"

record verify_request =
  body_tmpToken :: string
  body_totpToken :: string

text \<open>
  \<^verbatim>\<open>verify\<close> (lines 22 to 57). Every \<^verbatim>\<open>throw\<close>, and every rejection of a persistence
  call, lands in the \<^verbatim>\<open>catch\<close> of line 54. \<^verbatim>\<open>findByPk(undefined)\<close> finds no record.
  The challenge bookkeeping of line 44 does not branch and is left out.
\<close>

definition verify :: "env \<Rightarrow> verify_request \<Rightarrow> state \<Rightarrow> response \<times> state" where
  "verify env req s =
     (case verified_payload env (body_tmpToken req) of
        None \<Rightarrow> (Send 401 Empty, s)
      | Some p \<Rightarrow>
          if type_tag p \<noteq> Some needs_second_factor then (Send 401 Empty, s)
          else if down env FindByPk then (Send 401 Empty, s)
          else
            (case userId p of
               None \<Rightarrow> (Send 401 Empty, s)
             | Some i \<Rightarrow>
                 (case findByPk (users s) i of
                    None \<Rightarrow> (Send 401 Empty, s)
                  | Some u \<Rightarrow>
                      if \<not> check env (body_totpToken req) (totpSecret u) then (Send 401 Empty, s)
                      else if down env FindOrCreate then (Send 401 Empty, s)
                      else
                        (let (b, bs) = findOrCreate i (baskets s);
                             token = authorize env (no_properties\<lparr>payload_data := Some u\<rparr>)
                         in (Send 200 (Authentication token (basket_id b) (email u)),
                             put token \<lparr>data = u, bid = Some (basket_id b)\<rparr>
                               (s\<lparr>baskets := bs\<rparr>))))))"

text \<open>
  \<^verbatim>\<open>status\<close> (lines 64 to 92); the argument is the bearer token of the request. The body
  \<open>SetupData secret email setupToken\<close> is the JSON object with \<^verbatim>\<open>setup: false\<close>, and
  \<open>SetupDone\<close> is \<^verbatim>\<open>{ setup: true }\<close>.
\<close>

definition status :: "env \<Rightarrow> string option \<Rightarrow> state \<Rightarrow> response \<times> state" where
  "status env bearer s =
     (case from_request env s bearer of
        None \<Rightarrow> (Send 401 Empty, s)
      | Some d \<Rightarrow>
          if totpSecret (data d) = [] then
            (let sec = generateSecret env
             in (Send 200 (SetupData sec (email (data d))
                   (authorize env
                      (no_properties\<lparr>secret := Some sec, type_tag := Some totp_setup_secret\<rparr>))),
                 s))
          else (Send 200 SetupDone, s))"

record setup_request =
  bearer :: "string option"
  confirm_password :: string
  body_setupToken :: string
  body_initialToken :: string

text \<open>
  \<^verbatim>\<open>setup\<close> (lines 103 to 143), named \<open>setup_2fa\<close> here. A setup token without a \<^verbatim>\<open>secret\<close> property gives
  \<^verbatim>\<open>otplib\<close> no secret to check against and is rejected. The snapshot written by
  \<^verbatim>\<open>updateFrom\<close> is the freshly wrapped record, which has no basket id.
\<close>

definition setup_2fa :: "env \<Rightarrow> setup_request \<Rightarrow> state \<Rightarrow> response \<times> state" where
  "setup_2fa env req s =
     (case from_request env s (bearer req) of
        None \<Rightarrow> (Send 401 Empty, s)
      | Some d \<Rightarrow>
          (let s1 = s\<lparr>hashed := hashed s @ [confirm_password req]\<rparr>
           in if \<not> constantTimeCompare env (password (data d)) (hash env (confirm_password req))
              then (Send 401 Empty, s1)
              else if totpSecret (data d) \<noteq> [] then (Send 401 Empty, s1)
              else
                (case verified_payload env (body_setupToken req) of
                   None \<Rightarrow> (Send 401 Empty, s1)
                 | Some p \<Rightarrow>
                     if type_tag p \<noteq> Some totp_setup_secret then (Send 401 Empty, s1)
                     else
                       (case secret p of
                          None \<Rightarrow> (Send 401 Empty, s1)
                        | Some sec \<Rightarrow>
                            if \<not> check env (body_initialToken req) sec then (Send 401 Empty, s1)
                            else if down env FindByPk then (Send 401 Empty, s1)
                            else
                              (case findByPk (users s1) (user_id (data d)) of
                                 None \<Rightarrow> (Send 401 Empty, s1)
                               | Some userModel \<Rightarrow>
                                   if down env Save then (Send 401 Empty, s1)
                                   else
                                     (let saved = userModel\<lparr>totpSecret := sec\<rparr>
                                      in (Send 200 Empty,
                                          updateFrom (bearer req) \<lparr>data = saved, bid = None\<rparr>
                                            (s1\<lparr>users := save saved (users s1)\<rparr>))))))))"

text \<open>\<^verbatim>\<open>disable\<close> (lines 148 to 176); the password is compared with \<^verbatim>\<open>!==\<close>.\<close>

definition disable :: "env \<Rightarrow> string option \<Rightarrow> string \<Rightarrow> state \<Rightarrow> response \<times> state" where
  "disable env b pw s =
     (case from_request env s b of
        None \<Rightarrow> (Send 401 Empty, s)
      | Some d \<Rightarrow>
          (let s1 = s\<lparr>hashed := hashed s @ [pw]\<rparr>
           in if password (data d) \<noteq> hash env pw then (Send 401 Empty, s1)
              else if down env FindByPk then (Send 401 Empty, s1)
              else
                (case findByPk (users s1) (user_id (data d)) of
                   None \<Rightarrow> (Send 401 Empty, s1)
                 | Some userModel \<Rightarrow>
                     if down env Save then (Send 401 Empty, s1)
                     else
                       (let saved = userModel\<lparr>totpSecret := []\<rparr>
                        in (Send 200 Empty,
                            updateFrom b \<lparr>data = saved, bid = None\<rparr>
                              (s1\<lparr>users := save saved (users s1)\<rparr>))))))"

section \<open>The login handler at its suspension points\<close>

text \<open>
  The handler of login.ts is an \<^verbatim>\<open>async\<close> function: it runs up to an \<^verbatim>\<open>await\<close>, is
  suspended while other handlers run, and resumes with the awaited value. \<open>login\<close> above
  is the handler run without interruption. Here it is cut at its suspension points: the
  \<^verbatim>\<open>await\<close> of line 51 (\<^verbatim>\<open>hashPassword\<close>), the \<^verbatim>\<open>await\<close> of line 53
  (\<^verbatim>\<open>findOne\<close>) and the promise of \<^verbatim>\<open>findOrCreate\<close> in \<^verbatim>\<open>afterLogin\<close> (lines 19
  and 20). A suspended handler keeps its request and the \<^verbatim>\<open>now\<close> of line 37. A query
  is evaluated on the tables when it is issued and its answer is carried to the
  resumption; a rejected \<^verbatim>\<open>findOrCreate\<close> carries \<open>None\<close>.
\<close>

datatype pending =
    AwaitHash env login_request int
  | AwaitFindOne env login_request int "user option"
  | AwaitFindOrCreate env user "basket option"

text \<open>
  Lines 35 to 51: the lock test, and the call of \<^verbatim>\<open>hashPassword\<close> at which the handler
  is first suspended.
\<close>

definition login_start ::
    "env \<Rightarrow> login_request \<Rightarrow> int \<Rightarrow> state \<Rightarrow> (response + pending) \<times> state" where
  "login_start env req now s =
     (let key = lockout_key req;
          pw = or_empty (body_password req)
      in case failedLoginAttempts s key of
           None \<Rightarrow> (Inr (AwaitHash env req now), s\<lparr>hashed := hashed s @ [pw]\<rparr>)
         | Some a \<Rightarrow>
             if count a \<ge> FAILED_ATTEMPTS_LIMIT then
               if now - lastAttempt a < LOCK_TIME_MS then (Inl (Send 429 (Text too_many)), s)
               else (Inr (AwaitHash env req now),
                     (recordSuccess key s)\<lparr>hashed := hashed s @ [pw]\<rparr>)
             else (Inr (AwaitHash env req now), s\<lparr>hashed := hashed s @ [pw]\<rparr>))"

text \<open>
  The resumptions: line 53 after the hash, lines 61 to 86 after the lookup, and lines 20
  to 27 after the basket.
\<close>

fun login_resume :: "pending \<Rightarrow> state \<Rightarrow> (response + pending) \<times> state" where
  "login_resume (AwaitHash env req now) s =
     (Inr (AwaitFindOne env req now
        (findOne (users s) (or_empty (body_email req))
           (hashPassword env (or_empty (body_password req))))), s)"
| "login_resume (AwaitFindOne env req now found) s =
     (let key = lockout_key req
      in if down env FindOne then (Inl (Next None persistence_error), s)
         else
           (case found of
              None \<Rightarrow> (Inl (Send 401 (Text invalid_login)), recordFailure key now s)
            | Some u \<Rightarrow>
                if user_id u \<noteq> 0 \<and> totpSecret u \<noteq> [] then
                  (Inl (Send 401 (TotpTokenRequired (authorize env
                     (no_properties\<lparr>userId := Some (user_id u),
                                     type_tag := Some needs_second_factor\<rparr>)))),
                   recordSuccess key s)
                else if user_id u \<noteq> 0 then
                  (if down env FindOrCreate then
                     (Inr (AwaitFindOrCreate env u None), recordSuccess key s)
                   else
                     (let (b, bs) = findOrCreate (user_id u) (baskets s)
                      in (Inr (AwaitFindOrCreate env u (Some b)),
                          (recordSuccess key s)\<lparr>baskets := bs\<rparr>)))
                else (Inl (Send 401 (Text invalid_login)), recordFailure key now s)))"
| "login_resume (AwaitFindOrCreate env u found) s =
     (case found of
        None \<Rightarrow> (Inl (Next None persistence_error), s)
      | Some b \<Rightarrow>
          (let token = authorize env (no_properties\<lparr>payload_data := Some u\<rparr>)
           in (Inl (Send 200 (Authentication token (basket_id b) (email u))),
               put token \<lparr>data = u, bid = Some (basket_id b)\<rparr> s)))"

text \<open>Resuming a handler until it answers, at most \<open>n\<close> times, with nothing in between.\<close>

fun resume_all :: "nat \<Rightarrow> (response + pending) \<times> state \<Rightarrow> (response + pending) \<times> state" where
  "resume_all 0 r = r"
| "resume_all (Suc n) (Inl r, s) = (Inl r, s)"
| "resume_all (Suc n) (Inr p, s) = resume_all n (login_resume p s)"

text \<open>
  The process serving login requests: the shared state, the suspended handlers in the
  order of their arrival, and the answers given so far. A request arrives and its handler
  runs to its first suspension or to its answer; or the suspended handler at a position
  of the list is resumed and runs to its next suspension or to its answer. Any list of
  such events is a possible execution.
\<close>

record server =
  shared :: state
  waiting :: "pending list"
  answered :: "response list"

datatype event = Arrive env login_request int | Resume nat

fun deliver :: "event \<Rightarrow> server \<Rightarrow> server" where
  "deliver (Arrive env req now) sv =
     (case login_start env req now (shared sv) of
        (Inl r, s) \<Rightarrow> sv\<lparr>shared := s, answered := answered sv @ [r]\<rparr>
      | (Inr p, s) \<Rightarrow> sv\<lparr>shared := s, waiting := waiting sv @ [p]\<rparr>)"
| "deliver (Resume n) sv =
     (if n < length (waiting sv) then
        (case login_resume (waiting sv ! n) (shared sv) of
           (Inl r, s) \<Rightarrow>
             sv\<lparr>shared := s, waiting := take n (waiting sv) @ drop (Suc n) (waiting sv),
                answered := answered sv @ [r]\<rparr>
         | (Inr p, s) \<Rightarrow> sv\<lparr>shared := s, waiting := (waiting sv)[n := p]\<rparr>)
      else sv)"

fun schedule :: "server \<Rightarrow> event list \<Rightarrow> server" where
  "schedule sv [] = sv"
| "schedule sv (e # es) = schedule (deliver e sv) es"

definition idle :: "state \<Rightarrow> server" where
  "idle s = \<lparr>shared = s, waiting = [], answered = []\<rparr>"

text \<open>The state of a freshly started process over given tables.\<close>

definition initial :: "user list \<Rightarrow> basket list \<Rightarrow> state" where
  "initial us bs =
     \<lparr>failedLoginAttempts = Map.empty, tokenMap = Map.empty, users = us, baskets = bs,
      hashed = []\<rparr>"

section \<open>The TOTP check\<close>

text \<open>
  Modelled from the spec: \<^verbatim>\<open>otplib\<close> is not among the sources; 2fa.ts only sets its
  option \<^verbatim>\<open>window: 1\<close> (lines 16 to 20) and calls \<^verbatim>\<open>authenticator.check\<close>. Section 4.3
  of the specification: \<^verbatim>\<open>check(code, secret)\<close> validates a submitted code against the
  secret using the standard time-step algorithm, accepting codes valid within the window
  of adjacent time steps on either side. The code generator is a parameter: \<open>totp sec c\<close>
  is the code of secret \<open>sec\<close> at time-step counter \<open>c\<close>. The step is the 30 seconds
  the comment of line 17 names; \<open>now\<close> is in milliseconds.
\<close>

definition authenticator_window :: nat where
  "authenticator_window = 1"

definition time_step_ms :: int where
  "time_step_ms = 30 * 1000"

definition window_offsets :: "nat \<Rightarrow> int list" where
  "window_offsets w = 0 # map (\<lambda>i. - int i) [1..<Suc w] @ map int [1..<Suc w]"

definition authenticator_check ::
    "(string \<Rightarrow> int \<Rightarrow> string) \<Rightarrow> nat \<Rightarrow> int \<Rightarrow> string \<Rightarrow> string \<Rightarrow> bool" where
  "authenticator_check totp w now code sec =
     list_ex (\<lambda>d. code = totp sec (now div time_step_ms + d)) (window_offsets w)"

section \<open>Serving public files (servePublicFiles, source file part 000)\<close>

definition backslash :: char where
  "backslash = CHR 0x5C"

definition separator :: "char \<Rightarrow> bool" where
  "separator c = (c = CHR ''/'' \<or> c = backslash)"

text \<open>
  \<^verbatim>\<open>file.replace(/(\.\.[\/\\])|[\/\\]/g, '')\<close> (line 34): scanning from the left, two
  dots followed by a slash or backslash are dropped together, a lone slash or backslash
  is dropped, and any other character is kept.
\<close>

fun sanitize :: "string \<Rightarrow> string" where
  "sanitize (c1 # c2 # c3 # cs) =
     (if c1 = CHR ''.'' \<and> c2 = CHR ''.'' \<and> separator c3 then sanitize cs
      else if separator c1 then sanitize (c2 # c3 # cs)
      else c1 # sanitize (c2 # c3 # cs))"
| "sanitize (c # cs) = (if separator c then sanitize cs else c # sanitize cs)"
| "sanitize [] = []"

text \<open>
  \<^verbatim>\<open>path.resolve\<close> of Node, POSIX flavour, which is not among the sources: the arguments
  are taken from the right until one is absolute, the working directory last; the result
  is split at \<^verbatim>\<open>/\<close>, empty and \<^verbatim>\<open>.\<close> segments are dropped, \<^verbatim>\<open>..\<close> removes the
  segment before it (none at the root), and the segments are joined again behind a
  leading \<^verbatim>\<open>/\<close>. The working directory \<open>cwd\<close> is an absolute path.
\<close>

fun split_path :: "string \<Rightarrow> string list" where
  "split_path [] = [[]]"
| "split_path (c # cs) =
     (if c = CHR ''/'' then [] # split_path cs
      else (case split_path cs of [] \<Rightarrow> [[c]] | w # ws \<Rightarrow> (c # w) # ws))"

fun normalize_segments :: "string list \<Rightarrow> string list \<Rightarrow> string list" where
  "normalize_segments [] st = rev st"
| "normalize_segments (x # xs) st =
     (if x = [] \<or> x = ''.'' then normalize_segments xs st
      else if x = ''..'' then normalize_segments xs (tl st)
      else normalize_segments xs (x # st))"

fun join_segments :: "string list \<Rightarrow> string" where
  "join_segments [] = []"
| "join_segments [x] = x"
| "join_segments (x # y # ys) = x @ ''/'' @ join_segments (y # ys)"

fun prepend_paths :: "string list \<Rightarrow> string \<Rightarrow> string" where
  "prepend_paths [] acc = acc"
| "prepend_paths (p # ps) acc =
     (if p = [] then prepend_paths ps acc
      else if hd p = CHR ''/'' then p @ ''/'' @ acc
      else prepend_paths ps (p @ ''/'' @ acc))"

definition path_resolve :: "string \<Rightarrow> string list \<Rightarrow> string" where
  "path_resolve cwd args =
     ''/'' @ join_segments (normalize_segments (split_path (prepend_paths (rev args @ [cwd]) [])) [])"

text \<open>A segment that names an entry of a directory: not empty, not a dot name, no slash.\<close>

definition plain_segment :: "string \<Rightarrow> bool" where
  "plain_segment x = (x \<noteq> [] \<and> x \<noteq> ''.'' \<and> x \<noteq> ''..'' \<and> CHR ''/'' \<notin> set x)"

text \<open>
  \<^verbatim>\<open>utils.endsWith\<close> is not among the sources; by its name and its use it is the suffix
  test. \<^verbatim>\<open>security.cutOffPoisonNullByte\<close> is not among the sources either and is a
  parameter, \<open>cutOff\<close>, of the handler.
\<close>

definition endsWith :: "string \<Rightarrow> string \<Rightarrow> bool" where
  "endsWith str suf = suffix suf str"

definition endsWithAllowlistedFileType :: "string \<Rightarrow> bool" where
  "endsWithAllowlistedFileType param = (endsWith param ''.md'' \<or> endsWith param ''.pdf'')"

definition no_slashes_error :: string where
  "no_slashes_error = ''File names cannot contain forward or backward slashes!''"

definition traversal_error :: string where
  "traversal_error = ''File path traversal attempt detected!''"

definition allowlist_error :: string where
  "allowlist_error = ''Only .md and .pdf files are allowed!''"

text \<open>
  The inner function \<^verbatim>\<open>verify\<close> of \<^verbatim>\<open>servePublicFiles\<close> (lines 26 to 47), named
  \<open>verify_file\<close> here. The challenge bookkeeping of lines 30 and 31 observes the file
  name and does not branch; it is left out.
\<close>

definition verify_file :: "(string \<Rightarrow> string) \<Rightarrow> string \<Rightarrow> string \<Rightarrow> response" where
  "verify_file cutOff cwd file =
     (if file \<noteq> [] \<and> (endsWithAllowlistedFileType file \<or> file = ''incident-support.kdbx'') then
        (let file1 = cutOff file;
             sanitizedFile = sanitize file1;
             basePath = path_resolve cwd [''ftp/''];
             resolvedPath = path_resolve cwd [basePath, sanitizedFile]
         in if \<not> prefix (basePath @ ''/'') resolvedPath then Next (Some 403) traversal_error
            else SendFile resolvedPath)
      else Next (Some 403) allowlist_error)"

definition servePublicFiles :: "(string \<Rightarrow> string) \<Rightarrow> string \<Rightarrow> string \<Rightarrow> response" where
  "servePublicFiles cutOff cwd file =
     (if CHR ''/'' \<notin> set file \<and> backslash \<notin> set file then verify_file cutOff cwd file
      else Next (Some 403) no_slashes_error)"

section \<open>A concrete instance\<close>

text \<open>
  A small instance of the collaborators and of the tables, at which the theorems below are
  instantiated: a toy token codec that writes the type tag in front of the payload, a
  toy hash, and two users, the second enrolled for TOTP.
\<close>

definition demo_authorize :: "payload \<Rightarrow> string" where
  "demo_authorize p =
     (case type_tag p of
        Some t \<Rightarrow>
          t @ ''.'' @ (case userId p of Some i \<Rightarrow> replicate i CHR ''i'' | None \<Rightarrow> or_empty (secret p))
      | None \<Rightarrow> ''session.'' @ (case payload_data p of Some u \<Rightarrow> email u | None \<Rightarrow> []))"

definition demo_decode :: "string \<Rightarrow> payload option" where
  "demo_decode t =
     (if prefix (needs_second_factor @ ''.'') t then
        Some (no_properties\<lparr>userId := Some (length t - length (needs_second_factor @ ''.'')),
                            type_tag := Some needs_second_factor\<rparr>)
      else if prefix (totp_setup_secret @ ''.'') t then
        Some (no_properties\<lparr>secret := Some (drop (length (totp_setup_secret @ ''.'')) t),
                            type_tag := Some totp_setup_secret\<rparr>)
      else if prefix ''session.'' t then Some no_properties
      else None)"

definition demo_env :: env where
  "demo_env =
     \<lparr>hashPassword = (\<lambda>p. ''#'' @ p), hash = (\<lambda>p. ''#'' @ p), constantTimeCompare = (=),
      authorize = demo_authorize, security_verify = (\<lambda>t. demo_decode t \<noteq> None),
      decode = demo_decode, check = (\<lambda>code sec. code = ''000000'' \<and> sec \<noteq> []),
      generateSecret = ''KVKFKRCP'', down = (\<lambda>_. False), expired = (\<lambda>_. False)\<rparr>"

definition alice :: user where
  "alice =
     \<lparr>user_id = 1, email = ''a@x.com'', password = ''#p'', totpSecret = [], role = ''customer''\<rparr>"

definition bob :: user where
  "bob =
     \<lparr>user_id = 2, email = ''b@x.com'', password = ''#q'', totpSecret = ''JBSWY3DP'',
      role = ''customer''\<rparr>"

definition login_as :: "string \<Rightarrow> string \<Rightarrow> login_request" where
  "login_as e p = \<lparr>body_email = Some e, body_password = Some p, ip = ''::1''\<rparr>"

definition demo_state :: state where
  "demo_state = initial [alice, bob] []"

definition locked_state :: "string \<Rightarrow> state" where
  "locked_state key =
     demo_state\<lparr>failedLoginAttempts := [key \<mapsto> \<lparr>count = 5, lastAttempt = 1000\<rparr>]\<rparr>"

text \<open>
  \<^verbatim>\<open>security.cutOffPoisonNullByte\<close> is not among the sources and the specification
  does not describe it; the theorems take it as a parameter. This instance follows its
  name and what lines 49 to 58 of the handler look for after the cut (names such as
  \<^verbatim>\<open>eastere.gg\<close> and \<^verbatim>\<open>package.json.bak\<close>, which pass the allowlist only with
  something behind them): the string is cut at the first \<^verbatim>\<open>%00\<close>.
\<close>

fun cutOffPoisonNullByte :: "string \<Rightarrow> string" where
  "cutOffPoisonNullByte (a # b # c # cs) =
     (if a = CHR ''%'' \<and> b = CHR ''0'' \<and> c = CHR ''0'' then []
      else a # cutOffPoisonNullByte (b # c # cs))"
| "cutOffPoisonNullByte cs = cs"

text \<open>The collaborators of the instance with the basket table rejecting its calls.\<close>

definition basket_down_env :: env where
  "basket_down_env = demo_env\<lparr>down := (\<lambda>op. op = FindOrCreate)\<rparr>"

text \<open>Seven requests with a wrong password for the same email and origin, at time 0.\<close>

definition bad_login :: event where
  "bad_login = Arrive demo_env (login_as ''a@x.com'' ''bad'') 0"

text \<open>
  States with a registered session: of the first user after a login, of the second after
  the second factor, and of a third user whose record is no longer in the table.
\<close>

definition carol :: user where
  "carol =
     \<lparr>user_id = 3, email = ''c@x.com'', password = ''#r'', totpSecret = [], role = ''customer''\<rparr>"

definition alice_session :: state where
  "alice_session =
     put ''session.a@x.com'' \<lparr>data = alice, bid = Some 1\<rparr>
       (demo_state\<lparr>baskets := [\<lparr>basket_id = 1, UserId = 1\<rparr>]\<rparr>)"

definition bob_session :: state where
  "bob_session =
     put ''session.b@x.com'' \<lparr>data = bob, bid = Some 1\<rparr>
       (demo_state\<lparr>baskets := [\<lparr>basket_id = 1, UserId = 2\<rparr>]\<rparr>)"

definition orphan_session :: state where
  "orphan_session =
     put ''session.c@x.com'' \<lparr>data = carol, bid = Some 1\<rparr>
       (demo_state\<lparr>baskets := [\<lparr>basket_id = 1, UserId = 3\<rparr>]\<rparr>)"

definition setup_as :: "string \<Rightarrow> string \<Rightarrow> setup_request" where
  "setup_as token pw =
     \<lparr>bearer = Some token, confirm_password = pw,
      body_setupToken = ''totp_setup_secret.KVKFKRCP'', body_initialToken = ''000000''\<rparr>"

definition pending_state :: state where
  "pending_state =
     demo_state\<lparr>failedLoginAttempts := [''b@x.com:::1'' \<mapsto> \<lparr>count = 2, lastAttempt = 1000\<rparr>]\<rparr>"

section \<open>Properties of the login route\<close>

lemma recordSuccess_fields [simp]:
  "tokenMap (recordSuccess k s) = tokenMap s"
  "users (recordSuccess k s) = users s"
  "baskets (recordSuccess k s) = baskets s"
  "hashed (recordSuccess k s) = hashed s"
  "failedLoginAttempts (recordSuccess k s) = (failedLoginAttempts s)(k := None)"
  by (simp_all add: recordSuccess_def)

lemma recordFailure_fields [simp]:
  "tokenMap (recordFailure k now s) = tokenMap s"
  "users (recordFailure k now s) = users s"
  "baskets (recordFailure k now s) = baskets s"
  "hashed (recordFailure k now s) = hashed s"
  by (simp_all add: recordFailure_def split: option.splits)

lemma recordFailure_entry:
  "failedLoginAttempts (recordFailure k now s) =
     (failedLoginAttempts s)
       (k \<mapsto> \<lparr>count = (case failedLoginAttempts s k of None \<Rightarrow> 1 | Some a \<Rightarrow> count a + 1),
              lastAttempt = now\<rparr>)"
  by (simp add: recordFailure_def split: option.splits)

lemma put_fields [simp]:
  "tokenMap (put t u s) = (tokenMap s)(t \<mapsto> u)"
  "users (put t u s) = users s"
  "baskets (put t u s) = baskets s"
  "hashed (put t u s) = hashed s"
  "failedLoginAttempts (put t u s) = failedLoginAttempts s"
  by (simp_all add: put_def)

lemma findOrCreate_owner: "UserId (fst (findOrCreate i bs)) = i"
  by (auto simp: findOrCreate_def Let_def find_Some_iff split: option.splits)

lemma findOrCreate_member: "fst (findOrCreate i bs) \<in> set (snd (findOrCreate i bs))"
  by (auto simp: findOrCreate_def Let_def find_Some_iff split: option.splits)

lemma afterLogin_up:
  assumes "\<not> down env FindOrCreate"
  shows "afterLogin env u s =
    (Send 200 (Authentication (authorize env (no_properties\<lparr>payload_data := Some u\<rparr>))
        (basket_id (fst (findOrCreate (user_id u) (baskets s)))) (email u)),
     put (authorize env (no_properties\<lparr>payload_data := Some u\<rparr>))
       \<lparr>data = u, bid = Some (basket_id (fst (findOrCreate (user_id u) (baskets s))))\<rparr>
       (s\<lparr>baskets := snd (findOrCreate (user_id u) (baskets s))\<rparr>))"
  using assms by (simp add: afterLogin_def Let_def split: prod.splits)

lemma afterLogin_tracker: "failedLoginAttempts (snd (afterLogin env u s)) = failedLoginAttempts s"
  by (simp add: afterLogin_def Let_def split: prod.splits)

lemma afterLogin_hashed: "hashed (snd (afterLogin env u s)) = hashed s"
  by (simp add: afterLogin_def Let_def split: prod.splits)

lemma afterLogin_not_429: "fst (afterLogin env u s) \<noteq> Send 429 b"
  by (simp add: afterLogin_def Let_def split: prod.splits)

lemma login_try_not_429: "fst (login_try env req now key s) \<noteq> Send 429 b"
  by (simp add: login_try_def Let_def afterLogin_not_429 split: option.splits)

lemma login_try_hashed:
  "hashed (snd (login_try env req now key s)) = hashed s @ [or_empty (body_password req)]"
  by (simp add: login_try_def Let_def afterLogin_hashed split: option.splits)

lemma login_locked:
  "locked_out s (lockout_key req) now \<Longrightarrow> login env req now s = (Send 429 (Text too_many), s)"
  by (auto simp: locked_out_def login_def Let_def split: option.splits)

lemma login_expired:
  "failedLoginAttempts s (lockout_key req) = Some a \<Longrightarrow> count a \<ge> FAILED_ATTEMPTS_LIMIT \<Longrightarrow>
   \<not> now - lastAttempt a < LOCK_TIME_MS \<Longrightarrow>
   login env req now s = login_try env req now (lockout_key req) (recordSuccess (lockout_key req) s)"
  by (simp add: login_def Let_def)

lemma login_unlocked:
  "\<not> locked_out s (lockout_key req) now \<Longrightarrow>
   login env req now s = login_try env req now (lockout_key req) s \<or>
   login env req now s = login_try env req now (lockout_key req) (recordSuccess (lockout_key req) s)"
  by (auto simp: locked_out_def login_def Let_def split: option.splits)

lemma login_try_enrolled:
  assumes "\<not> down env FindOne"
    and "findOne (users s) (or_empty (body_email req))
           (hashPassword env (or_empty (body_password req))) = Some u"
    and "user_id u \<noteq> 0" and "totpSecret u \<noteq> []"
  shows "login_try env req now key s =
    (Send 401 (TotpTokenRequired (authorize env
        (no_properties\<lparr>userId := Some (user_id u), type_tag := Some needs_second_factor\<rparr>))),
     recordSuccess key (s\<lparr>hashed := hashed s @ [or_empty (body_password req)]\<rparr>))"
  using assms by (simp add: login_try_def Let_def)

lemma login_try_plain:
  assumes "\<not> down env FindOne"
    and "findOne (users s) (or_empty (body_email req))
           (hashPassword env (or_empty (body_password req))) = Some u"
    and "user_id u \<noteq> 0" and "totpSecret u = []"
  shows "login_try env req now key s =
    afterLogin env u (recordSuccess key (s\<lparr>hashed := hashed s @ [or_empty (body_password req)]\<rparr>))"
  using assms by (simp add: login_try_def Let_def)

lemma login_try_mismatch:
  assumes "\<not> down env FindOne"
    and "findOne (users s) (or_empty (body_email req))
           (hashPassword env (or_empty (body_password req))) = None"
  shows "login_try env req now key s =
    (Send 401 (Text invalid_login),
     recordFailure key now (s\<lparr>hashed := hashed s @ [or_empty (body_password req)]\<rparr>))"
  using assms by (simp add: login_try_def Let_def)

lemma login_try_enrolled_no_session:
  assumes "findOne (users s) (or_empty (body_email req))
           (hashPassword env (or_empty (body_password req))) = Some u"
    and "totpSecret u \<noteq> []"
  shows "tokenMap (snd (login_try env req now key s)) = tokenMap s \<and>
         fst (login_try env req now key s) \<noteq> Send n (Authentication t b m)"
  using assms by (simp add: login_try_def Let_def)

lemma locked_out_iff:
  "locked_out s key now \<longleftrightarrow>
     (\<exists>a. failedLoginAttempts s key = Some a \<and> 5 \<le> count a \<and> now - lastAttempt a < 900000)"
  by (auto simp: locked_out_def FAILED_ATTEMPTS_LIMIT_def LOCK_TIME_MS_def split: option.splits)

lemma login_429_iff:
  "fst (login env req now s) = Send 429 (Text too_many) \<longleftrightarrow> locked_out s (lockout_key req) now"
  using login_locked[of s req now env] login_unlocked[of s req now env] login_try_not_429
  by (metis fst_conv)

lemma login_plain_result:
  assumes up: "\<not> down env FindOne" "\<not> down env FindOrCreate"
    and found: "findOne (users s) (or_empty (body_email req))
           (hashPassword env (or_empty (body_password req))) = Some u"
    and u: "user_id u \<noteq> 0" "totpSecret u = []"
    and unlocked: "\<not> locked_out s (lockout_key req) now"
  shows "fst (login env req now s) =
      Send 200 (Authentication (authorize env (no_properties\<lparr>payload_data := Some u\<rparr>))
        (basket_id (fst (findOrCreate (user_id u) (baskets s)))) (email u))"
    and "failedLoginAttempts (snd (login env req now s)) =
           (failedLoginAttempts s)(lockout_key req := None)"
    and "tokenMap (snd (login env req now s)) =
           (tokenMap s)(authorize env (no_properties\<lparr>payload_data := Some u\<rparr>) \<mapsto>
              \<lparr>data = u, bid = Some (basket_id (fst (findOrCreate (user_id u) (baskets s))))\<rparr>)"
    and "baskets (snd (login env req now s)) = snd (findOrCreate (user_id u) (baskets s))"
proof -
  let ?k = "lockout_key req"
  have a: "login_try env req now ?k s =
      afterLogin env u (recordSuccess ?k (s\<lparr>hashed := hashed s @ [or_empty (body_password req)]\<rparr>))"
    using login_try_plain[OF up(1) found u] .
  have found': "findOne (users (recordSuccess ?k s)) (or_empty (body_email req))
           (hashPassword env (or_empty (body_password req))) = Some u"
    using found by simp
  have b: "login_try env req now ?k (recordSuccess ?k s) =
      afterLogin env u (recordSuccess ?k
        ((recordSuccess ?k s)\<lparr>hashed := hashed (recordSuccess ?k s) @ [or_empty (body_password req)]\<rparr>))"
    using login_try_plain[OF up(1) found' u] .
  from login_unlocked[OF unlocked, of env]
  show "fst (login env req now s) =
      Send 200 (Authentication (authorize env (no_properties\<lparr>payload_data := Some u\<rparr>))
        (basket_id (fst (findOrCreate (user_id u) (baskets s)))) (email u))"
    by (auto simp: a b afterLogin_up[OF up(2)])
  from login_unlocked[OF unlocked, of env]
  show "failedLoginAttempts (snd (login env req now s)) =
           (failedLoginAttempts s)(lockout_key req := None)"
    by (auto simp: a b afterLogin_up[OF up(2)])
  from login_unlocked[OF unlocked, of env]
  show "tokenMap (snd (login env req now s)) =
           (tokenMap s)(authorize env (no_properties\<lparr>payload_data := Some u\<rparr>) \<mapsto>
              \<lparr>data = u, bid = Some (basket_id (fst (findOrCreate (user_id u) (baskets s))))\<rparr>)"
    by (auto simp: a b afterLogin_up[OF up(2)])
  from login_unlocked[OF unlocked, of env]
  show "baskets (snd (login env req now s)) = snd (findOrCreate (user_id u) (baskets s))"
    by (auto simp: a b afterLogin_up[OF up(2)])
qed

lemma demo_lockout_key: "lockout_key (login_as e p) = e @ '':::1''"
  by (simp add: lockout_key_def login_as_def or_empty_def)

lemma demo_locked_entry:
  "failedLoginAttempts (locked_state key) key = Some \<lparr>count = 5, lastAttempt = 1000\<rparr>"
  by (simp add: locked_state_def)

lemma demo_users [simp]: "users (locked_state key) = [alice, bob]" "users demo_state = [alice, bob]"
  "baskets (locked_state key) = []" "baskets demo_state = []"
  by (simp_all add: locked_state_def demo_state_def initial_def)

lemma demo_findOne_alice:
  "findOne [alice, bob] (or_empty (body_email (login_as ''a@x.com'' ''p'')))
     (hashPassword demo_env (or_empty (body_password (login_as ''a@x.com'' ''p'')))) = Some alice"
  by (simp add: findOne_def login_as_def or_empty_def demo_env_def alice_def)

lemma demo_findOne_bob:
  "findOne [alice, bob] (or_empty (body_email (login_as ''b@x.com'' ''q'')))
     (hashPassword demo_env (or_empty (body_password (login_as ''b@x.com'' ''q'')))) = Some bob"
  by (simp add: findOne_def login_as_def or_empty_def demo_env_def alice_def bob_def)

lemma demo_up [simp]: "\<not> down demo_env x"
  by (simp add: demo_env_def)

text \<open>
  C3. A login attempt is answered with the rate-limit signal (status 429) exactly when the
  tracker holds an entry for the lockout key (submitted email, colon, request origin) whose
  count is at least 5 and whose last failure is less than 15 minutes before now. When the
  count is at least 5 and the window has elapsed, the entry is deleted and the attempt
  proceeds as on a state without it: with the credentials of a record that is not
  enrolled it succeeds and leaves no entry, and with credentials that match no record it
  leaves a fresh entry of count 1.
\<close>

theorem login_rate_limit:
  "(fst (login env req now s) = Send 429 (Text too_many) \<longleftrightarrow>
      (\<exists>a. failedLoginAttempts s (lockout_key req) = Some a \<and> 5 \<le> count a \<and>
           now - lastAttempt a < 15 * 60 * 1000)) \<and>
   (\<forall>a. failedLoginAttempts s (lockout_key req) = Some a \<and> 5 \<le> count a \<and>
        \<not> now - lastAttempt a < 15 * 60 * 1000 \<longrightarrow>
        login env req now s =
          login_try env req now (lockout_key req) (recordSuccess (lockout_key req) s) \<and>
        failedLoginAttempts (recordSuccess (lockout_key req) s) (lockout_key req) = None \<and>
        (\<forall>u. \<not> down env FindOne \<and> \<not> down env FindOrCreate \<and>
             findOne (users s) (or_empty (body_email req))
               (hashPassword env (or_empty (body_password req))) = Some u \<and>
             user_id u \<noteq> 0 \<and> totpSecret u = [] \<longrightarrow>
             fst (login env req now s) =
               Send 200 (Authentication (authorize env (no_properties\<lparr>payload_data := Some u\<rparr>))
                 (basket_id (fst (findOrCreate (user_id u) (baskets s)))) (email u)) \<and>
             failedLoginAttempts (snd (login env req now s)) (lockout_key req) = None) \<and>
        (\<not> down env FindOne \<and>
         findOne (users s) (or_empty (body_email req))
           (hashPassword env (or_empty (body_password req))) = None \<longrightarrow>
         fst (login env req now s) = Send 401 (Text invalid_login) \<and>
         failedLoginAttempts (snd (login env req now s)) (lockout_key req) =
           Some \<lparr>count = 1, lastAttempt = now\<rparr>))"
proof (intro conjI allI impI)
  show "fst (login env req now s) = Send 429 (Text too_many) \<longleftrightarrow>
      (\<exists>a. failedLoginAttempts s (lockout_key req) = Some a \<and> 5 \<le> count a \<and>
           now - lastAttempt a < 15 * 60 * 1000)"
    using login_429_iff[of env req now s] locked_out_iff[of s "lockout_key req" now] by simp
next
  fix a
  assume h: "failedLoginAttempts s (lockout_key req) = Some a \<and> 5 \<le> count a \<and>
        \<not> now - lastAttempt a < 15 * 60 * 1000"
  then have ex: "login env req now s =
      login_try env req now (lockout_key req) (recordSuccess (lockout_key req) s)"
    using login_expired[of s req a now env]
    by (simp add: FAILED_ATTEMPTS_LIMIT_def LOCK_TIME_MS_def)
  from h have unlocked: "\<not> locked_out s (lockout_key req) now"
    by (auto simp: locked_out_iff)
  show "login env req now s =
      login_try env req now (lockout_key req) (recordSuccess (lockout_key req) s)"
    by (rule ex)
  show "failedLoginAttempts (recordSuccess (lockout_key req) s) (lockout_key req) = None"
    by simp
  {
    fix u
    assume m: "\<not> down env FindOne \<and> \<not> down env FindOrCreate \<and>
             findOne (users s) (or_empty (body_email req))
               (hashPassword env (or_empty (body_password req))) = Some u \<and>
             user_id u \<noteq> 0 \<and> totpSecret u = []"
    show "fst (login env req now s) =
               Send 200 (Authentication (authorize env (no_properties\<lparr>payload_data := Some u\<rparr>))
                 (basket_id (fst (findOrCreate (user_id u) (baskets s)))) (email u))"
      using m unlocked login_plain_result(1)[of env s req u now] by simp
    show "failedLoginAttempts (snd (login env req now s)) (lockout_key req) = None"
      using m unlocked login_plain_result(2)[of env s req u now] by simp
  }
  {
    assume m: "\<not> down env FindOne \<and>
         findOne (users s) (or_empty (body_email req))
           (hashPassword env (or_empty (body_password req))) = None"
    then have "login_try env req now (lockout_key req) (recordSuccess (lockout_key req) s) =
       (Send 401 (Text invalid_login),
        recordFailure (lockout_key req) now
          ((recordSuccess (lockout_key req) s)
             \<lparr>hashed := hashed (recordSuccess (lockout_key req) s) @ [or_empty (body_password req)]\<rparr>))"
      by (intro login_try_mismatch) simp_all
    with ex have r: "login env req now s =
       (Send 401 (Text invalid_login),
        recordFailure (lockout_key req) now
          ((recordSuccess (lockout_key req) s)
             \<lparr>hashed := hashed (recordSuccess (lockout_key req) s) @ [or_empty (body_password req)]\<rparr>))"
      by simp
    show "fst (login env req now s) = Send 401 (Text invalid_login)"
      by (simp add: r)
    show "failedLoginAttempts (snd (login env req now s)) (lockout_key req) =
           Some \<lparr>count = 1, lastAttempt = now\<rparr>"
      by (simp add: r recordFailure_entry)
  }
qed

theorem login_rate_limit_witness:
  "fst (login demo_env (login_as ''a@x.com'' ''p'') 2000 (locked_state ''a@x.com:::1'')) =
     Send 429 (Text too_many) \<and>
   fst (login demo_env (login_as ''a@x.com'' ''p'') 901000 (locked_state ''a@x.com:::1'')) =
     Send 200 (Authentication ''session.a@x.com'' 1 ''a@x.com'') \<and>
   failedLoginAttempts
     (snd (login demo_env (login_as ''a@x.com'' ''p'') 901000 (locked_state ''a@x.com:::1'')))
     ''a@x.com:::1'' = None \<and>
   fst (login demo_env (login_as ''a@x.com'' ''wrong'') 901000 (locked_state ''a@x.com:::1'')) =
     Send 401 (Text invalid_login) \<and>
   failedLoginAttempts
     (snd (login demo_env (login_as ''a@x.com'' ''wrong'') 901000 (locked_state ''a@x.com:::1'')))
     ''a@x.com:::1'' = Some \<lparr>count = 1, lastAttempt = 901000\<rparr>"
proof -
  let ?s = "locked_state ''a@x.com:::1''"
  let ?a = "\<lparr>count = 5, lastAttempt = 1000\<rparr>"
  have k: "lockout_key (login_as ''a@x.com'' p) = ''a@x.com:::1''" for p
    by (simp add: demo_lockout_key)
  have e: "failedLoginAttempts ?s ''a@x.com:::1'' = Some ?a"
    by (rule demo_locked_entry)
  have none: "findOne [alice, bob] (or_empty (body_email (login_as ''a@x.com'' ''wrong'')))
     (hashPassword demo_env (or_empty (body_password (login_as ''a@x.com'' ''wrong'')))) = None"
    by (simp add: findOne_def login_as_def or_empty_def demo_env_def alice_def bob_def)
  have auth: "authorize demo_env (no_properties\<lparr>payload_data := Some alice\<rparr>) = ''session.a@x.com''"
    by (simp add: demo_env_def demo_authorize_def no_properties_def alice_def)
  have b: "basket_id (fst (findOrCreate (user_id alice) [])) = 1"
    by (simp add: findOrCreate_def Let_def)
  have al: "user_id alice \<noteq> 0 \<and> totpSecret alice = [] \<and> email alice = ''a@x.com''"
    by (simp add: alice_def)
  have locked: "\<exists>a. failedLoginAttempts ?s (lockout_key (login_as ''a@x.com'' ''p'')) = Some a \<and>
      5 \<le> count a \<and> 2000 - lastAttempt a < 15 * 60 * 1000"
    by (simp add: k e)
  have 1: "fst (login demo_env (login_as ''a@x.com'' ''p'') 2000 ?s) = Send 429 (Text too_many)"
    using login_rate_limit[of demo_env "login_as ''a@x.com'' ''p''" 2000 ?s, THEN conjunct1] locked
    by blast
  have expired: "failedLoginAttempts ?s (lockout_key (login_as ''a@x.com'' p)) = Some ?a \<and>
      5 \<le> count ?a \<and> \<not> 901000 - lastAttempt ?a < 15 * 60 * 1000" for p
    by (simp add: k e)
  have m: "\<not> down demo_env FindOne \<and> \<not> down demo_env FindOrCreate \<and>
      findOne (users ?s) (or_empty (body_email (login_as ''a@x.com'' ''p'')))
        (hashPassword demo_env (or_empty (body_password (login_as ''a@x.com'' ''p'')))) =
        Some alice \<and> user_id alice \<noteq> 0 \<and> totpSecret alice = []"
    using demo_findOne_alice al by simp
  have 2: "fst (login demo_env (login_as ''a@x.com'' ''p'') 901000 ?s) =
     Send 200 (Authentication ''session.a@x.com'' 1 ''a@x.com'') \<and>
     failedLoginAttempts (snd (login demo_env (login_as ''a@x.com'' ''p'') 901000 ?s))
       ''a@x.com:::1'' = None"
    using login_rate_limit[of demo_env "login_as ''a@x.com'' ''p''" 901000 ?s,
        THEN conjunct2, THEN spec, THEN mp, OF expired,
        THEN conjunct2, THEN conjunct2, THEN conjunct1, THEN spec, THEN mp, OF m]
    by (simp add: k auth b al)
  have n: "\<not> down demo_env FindOne \<and>
      findOne (users ?s) (or_empty (body_email (login_as ''a@x.com'' ''wrong'')))
        (hashPassword demo_env (or_empty (body_password (login_as ''a@x.com'' ''wrong'')))) = None"
    using none by simp
  have 3: "fst (login demo_env (login_as ''a@x.com'' ''wrong'') 901000 ?s) =
       Send 401 (Text invalid_login) \<and>
     failedLoginAttempts (snd (login demo_env (login_as ''a@x.com'' ''wrong'') 901000 ?s))
       ''a@x.com:::1'' = Some \<lparr>count = 1, lastAttempt = 901000\<rparr>"
    using login_rate_limit[of demo_env "login_as ''a@x.com'' ''wrong''" 901000 ?s,
        THEN conjunct2, THEN spec, THEN mp, OF expired,
        THEN conjunct2, THEN conjunct2, THEN conjunct2, THEN mp, OF n]
    by (simp add: k)
  from 1 2 3 show ?thesis by simp
qed

lemma find_snoc: "find P (xs @ [y]) = (case find P xs of None \<Rightarrow> (if P y then Some y else None) | Some x \<Rightarrow> Some x)"
  by (induction xs) auto

lemma findOrCreate_idem:
  "findOrCreate i (snd (findOrCreate i bs)) = (fst (findOrCreate i bs), snd (findOrCreate i bs))"
  by (auto simp: findOrCreate_def Let_def find_snoc split: option.splits)

lemma login_enrolled_cases:
  assumes found: "findOne (users s) (or_empty (body_email req))
           (hashPassword env (or_empty (body_password req))) = Some u"
    and enrolled: "totpSecret u \<noteq> []"
  shows "fst (login env req now s) \<noteq> Send n (Authentication t b m)"
    and "tokenMap (snd (login env req now s)) = tokenMap s"
proof -
  let ?k = "lockout_key req"
  have found': "findOne (users (recordSuccess ?k s)) (or_empty (body_email req))
           (hashPassword env (or_empty (body_password req))) = Some u"
    using found by simp
  note a = login_try_enrolled_no_session[OF found enrolled, of now ?k n t b m]
  note b = login_try_enrolled_no_session[OF found' enrolled, of now ?k n t b m]
  show "fst (login env req now s) \<noteq> Send n (Authentication t b m)"
  proof (cases "locked_out s ?k now")
    case True
    then show ?thesis by (simp add: login_locked)
  next
    case False
    from login_unlocked[OF this, of env] a b show ?thesis by auto
  qed
  show "tokenMap (snd (login env req now s)) = tokenMap s"
  proof (cases "locked_out s ?k now")
    case True
    then show ?thesis by (simp add: login_locked)
  next
    case False
    from login_unlocked[OF this, of env] a b show ?thesis by auto
  qed
qed

lemma login_enrolled_result:
  assumes up: "\<not> down env FindOne"
    and found: "findOne (users s) (or_empty (body_email req))
           (hashPassword env (or_empty (body_password req))) = Some u"
    and u: "user_id u \<noteq> 0" "totpSecret u \<noteq> []"
    and unlocked: "\<not> locked_out s (lockout_key req) now"
  shows "fst (login env req now s) =
      Send 401 (TotpTokenRequired (authorize env
        (no_properties\<lparr>userId := Some (user_id u), type_tag := Some needs_second_factor\<rparr>)))"
    and "failedLoginAttempts (snd (login env req now s)) =
           (failedLoginAttempts s)(lockout_key req := None)"
proof -
  let ?k = "lockout_key req"
  have found': "findOne (users (recordSuccess ?k s)) (or_empty (body_email req))
           (hashPassword env (or_empty (body_password req))) = Some u"
    using found by simp
  note a = login_try_enrolled[OF up found u, of now ?k]
  note b = login_try_enrolled[OF up found' u, of now ?k]
  from login_unlocked[OF unlocked, of env]
  show "fst (login env req now s) =
      Send 401 (TotpTokenRequired (authorize env
        (no_properties\<lparr>userId := Some (user_id u), type_tag := Some needs_second_factor\<rparr>)))"
    by (auto simp: a b)
  from login_unlocked[OF unlocked, of env]
  show "failedLoginAttempts (snd (login env req now s)) =
           (failedLoginAttempts s)(lockout_key req := None)"
    by (auto simp: a b)
qed

text \<open>
  C1, as amended. Whenever the submitted email and the hash of the submitted password
  select a record whose TOTP secret is non-empty, login answers with no session token and
  leaves the session registry as it was, in every state. When moreover the lockout key is
  not locked (and the lookup answers, for a record with a non-zero id, which is what the
  truthiness test of line 63 asks), the answer is status 401 with the
  \<^verbatim>\<open>totp_token_required\<close> body, whose token is the signature of the payload with
  type tag \<^verbatim>\<open>password_valid_needs_second_factor_token\<close> and the record's id as
  \<^verbatim>\<open>userId\<close>, and the key's entry is deleted.
\<close>

theorem login_enrolled_pending:
  "findOne (users s) (or_empty (body_email req))
     (hashPassword env (or_empty (body_password req))) = Some u \<and> totpSecret u \<noteq> [] \<longrightarrow>
   (\<forall>n t b m. fst (login env req now s) \<noteq> Send n (Authentication t b m)) \<and>
   tokenMap (snd (login env req now s)) = tokenMap s \<and>
   (\<not> down env FindOne \<and> user_id u \<noteq> 0 \<and> \<not> locked_out s (lockout_key req) now \<longrightarrow>
      fst (login env req now s) =
        Send 401 (TotpTokenRequired (authorize env
          \<lparr>userId = Some (user_id u), type_tag = Some needs_second_factor,
           secret = None, payload_data = None\<rparr>)) \<and>
      failedLoginAttempts (snd (login env req now s)) (lockout_key req) = None)"
proof (intro impI conjI allI; (elim conjE)?)
  fix n t b m
  assume "findOne (users s) (or_empty (body_email req))
     (hashPassword env (or_empty (body_password req))) = Some u" "totpSecret u \<noteq> []"
  then show "fst (login env req now s) \<noteq> Send n (Authentication t b m)"
    by (rule login_enrolled_cases(1))
next
  assume "findOne (users s) (or_empty (body_email req))
     (hashPassword env (or_empty (body_password req))) = Some u" "totpSecret u \<noteq> []"
  then show "tokenMap (snd (login env req now s)) = tokenMap s"
    by (rule login_enrolled_cases(2))
next
  assume "findOne (users s) (or_empty (body_email req))
     (hashPassword env (or_empty (body_password req))) = Some u" "totpSecret u \<noteq> []"
     "\<not> down env FindOne" "user_id u \<noteq> 0" "\<not> locked_out s (lockout_key req) now"
  then show "fst (login env req now s) =
        Send 401 (TotpTokenRequired (authorize env
          \<lparr>userId = Some (user_id u), type_tag = Some needs_second_factor,
           secret = None, payload_data = None\<rparr>))"
    using login_enrolled_result(1)[of env s req u now] by (simp add: no_properties_def)
next
  assume "findOne (users s) (or_empty (body_email req))
     (hashPassword env (or_empty (body_password req))) = Some u" "totpSecret u \<noteq> []"
     "\<not> down env FindOne" "user_id u \<noteq> 0" "\<not> locked_out s (lockout_key req) now"
  then show "failedLoginAttempts (snd (login env req now s)) (lockout_key req) = None"
    using login_enrolled_result(2)[of env s req u now] by simp
qed

theorem login_enrolled_pending_witness:
  "fst (login demo_env (login_as ''b@x.com'' ''q'') 0 demo_state) =
     Send 401 (TotpTokenRequired ''password_valid_needs_second_factor_token.ii'') \<and>
   tokenMap (snd (login demo_env (login_as ''b@x.com'' ''q'') 0 demo_state)) = tokenMap demo_state \<and>
   failedLoginAttempts (snd (login demo_env (login_as ''b@x.com'' ''q'') 0 demo_state))
     ''b@x.com:::1'' = None"
proof -
  have h: "findOne (users demo_state) (or_empty (body_email (login_as ''b@x.com'' ''q'')))
     (hashPassword demo_env (or_empty (body_password (login_as ''b@x.com'' ''q'')))) = Some bob \<and>
     totpSecret bob \<noteq> []"
    using demo_findOne_bob by (simp add: bob_def)
  have g: "\<not> down demo_env FindOne \<and> user_id bob \<noteq> 0 \<and>
     \<not> locked_out demo_state (lockout_key (login_as ''b@x.com'' ''q'')) 0"
    by (simp add: bob_def locked_out_def demo_state_def initial_def)
  have auth: "authorize demo_env
          \<lparr>userId = Some (user_id bob), type_tag = Some needs_second_factor,
           secret = None, payload_data = None\<rparr> = ''password_valid_needs_second_factor_token.ii''"
    by (simp add: demo_env_def demo_authorize_def bob_def needs_second_factor_def numeral_2_eq_2)
  note T = login_enrolled_pending[of demo_state "login_as ''b@x.com'' ''q''" demo_env bob 0,
      THEN mp, OF h]
  from T[THEN conjunct2, THEN conjunct1] T[THEN conjunct2, THEN conjunct2, THEN mp, OF g]
  show ?thesis by (simp add: auth demo_lockout_key)
qed

text \<open>
  With the lockout key locked, the matching email and password of an enrolled record are
  answered with the rate-limit signal, not with the second-factor-required status.
\<close>

theorem login_enrolled_locked_counterexample:
  "findOne (users (locked_state ''b@x.com:::1'')) (or_empty (body_email (login_as ''b@x.com'' ''q'')))
     (hashPassword demo_env (or_empty (body_password (login_as ''b@x.com'' ''q'')))) = Some bob \<and>
   totpSecret bob \<noteq> [] \<and>
   fst (login demo_env (login_as ''b@x.com'' ''q'') 2000 (locked_state ''b@x.com:::1'')) =
     Send 429 (Text too_many)"
proof -
  have "locked_out (locked_state ''b@x.com:::1'') (lockout_key (login_as ''b@x.com'' ''q'')) 2000"
    by (simp add: locked_out_def demo_lockout_key demo_locked_entry
        FAILED_ATTEMPTS_LIMIT_def LOCK_TIME_MS_def)
  then show ?thesis
    using demo_findOne_bob by (simp add: login_locked bob_def)
qed

lemma login_plain_rejected:
  assumes up: "\<not> down env FindOne" and rejected: "down env FindOrCreate"
    and found: "findOne (users s) (or_empty (body_email req))
           (hashPassword env (or_empty (body_password req))) = Some u"
    and u: "user_id u \<noteq> 0" "totpSecret u = []"
    and unlocked: "\<not> locked_out s (lockout_key req) now"
  shows "fst (login env req now s) = Next None persistence_error"
    and "failedLoginAttempts (snd (login env req now s)) =
           (failedLoginAttempts s)(lockout_key req := None)"
    and "tokenMap (snd (login env req now s)) = tokenMap s"
    and "baskets (snd (login env req now s)) = baskets s"
proof -
  let ?k = "lockout_key req"
  have a: "login_try env req now ?k s =
      afterLogin env u (recordSuccess ?k (s\<lparr>hashed := hashed s @ [or_empty (body_password req)]\<rparr>))"
    using login_try_plain[OF up found u] .
  have found': "findOne (users (recordSuccess ?k s)) (or_empty (body_email req))
           (hashPassword env (or_empty (body_password req))) = Some u"
    using found by simp
  have b: "login_try env req now ?k (recordSuccess ?k s) =
      afterLogin env u (recordSuccess ?k
        ((recordSuccess ?k s)\<lparr>hashed := hashed (recordSuccess ?k s) @ [or_empty (body_password req)]\<rparr>))"
    using login_try_plain[OF up found' u] .
  have c: "afterLogin env u s' = (Next None persistence_error, s')" for s'
    using rejected by (simp add: afterLogin_def)
  from login_unlocked[OF unlocked, of env]
  show "fst (login env req now s) = Next None persistence_error"
    by (auto simp: a b c)
  from login_unlocked[OF unlocked, of env]
  show "failedLoginAttempts (snd (login env req now s)) =
           (failedLoginAttempts s)(lockout_key req := None)"
    by (auto simp: a b c)
  from login_unlocked[OF unlocked, of env]
  show "tokenMap (snd (login env req now s)) = tokenMap s"
    by (auto simp: a b c)
  from login_unlocked[OF unlocked, of env]
  show "baskets (snd (login env req now s)) = baskets s"
    by (auto simp: a b c)
qed

lemma from_request_registered:
  "tokenMap s token = Some d \<Longrightarrow>
   from_request env s (Some token) = (if expired env token then None else Some d)"
  by (simp add: from_request_def)

text \<open>
  C6, as amended. Let the submitted email and the hash of the submitted password select
  a record with an empty TOTP secret and a non-zero id (line 74 tests the id by
  truthiness), the lookup answering, and let the lockout key not be locked. When the
  basket call answers, login deletes the key's entry, finds or creates the basket of the
  identity (finding it again creates nothing), signs the wrapped record into a session
  token, registers the token with the snapshot that carries the basket id, and answers
  status 200 with that token, the basket id and the email; a later lookup of that token
  in the registry gives that snapshot as long as the token has not expired, and nothing
  once it has. When the basket call is rejected, login still deletes the key's entry,
  hands the error to \<^verbatim>\<open>next\<close>, and registers no session and creates no basket.
\<close>

theorem login_plain_session:
  "\<not> down env FindOne \<and>
   findOne (users s) (or_empty (body_email req))
     (hashPassword env (or_empty (body_password req))) = Some u \<and>
   user_id u \<noteq> 0 \<and> totpSecret u = [] \<and> \<not> locked_out s (lockout_key req) now \<longrightarrow>
   (\<not> down env FindOrCreate \<longrightarrow>
      fst (login env req now s) =
        Send 200 (Authentication (authorize env (no_properties\<lparr>payload_data := Some u\<rparr>))
          (basket_id (fst (findOrCreate (user_id u) (baskets s)))) (email u)) \<and>
      failedLoginAttempts (snd (login env req now s)) (lockout_key req) = None \<and>
      fst (findOrCreate (user_id u) (baskets s)) \<in> set (baskets (snd (login env req now s))) \<and>
      UserId (fst (findOrCreate (user_id u) (baskets s))) = user_id u \<and>
      findOrCreate (user_id u) (baskets (snd (login env req now s))) =
        (fst (findOrCreate (user_id u) (baskets s)), baskets (snd (login env req now s))) \<and>
      (\<forall>env2. from_request env2 (snd (login env req now s))
          (Some (authorize env (no_properties\<lparr>payload_data := Some u\<rparr>))) =
        (if expired env2 (authorize env (no_properties\<lparr>payload_data := Some u\<rparr>)) then None
         else Some \<lparr>data = u,
                    bid = Some (basket_id (fst (findOrCreate (user_id u) (baskets s))))\<rparr>))) \<and>
   (down env FindOrCreate \<longrightarrow>
      fst (login env req now s) = Next None persistence_error \<and>
      failedLoginAttempts (snd (login env req now s)) (lockout_key req) = None \<and>
      tokenMap (snd (login env req now s)) = tokenMap s \<and>
      baskets (snd (login env req now s)) = baskets s)"
proof (intro impI conjI allI; (elim conjE)?)
  assume up: "\<not> down env FindOne" "\<not> down env FindOrCreate"
    and found: "findOne (users s) (or_empty (body_email req))
     (hashPassword env (or_empty (body_password req))) = Some u"
    and u: "user_id u \<noteq> 0" "totpSecret u = []"
    and unlocked: "\<not> locked_out s (lockout_key req) now"
  note r = login_plain_result[OF up found u unlocked]
  show "fst (login env req now s) =
        Send 200 (Authentication (authorize env (no_properties\<lparr>payload_data := Some u\<rparr>))
          (basket_id (fst (findOrCreate (user_id u) (baskets s)))) (email u))"
    by (rule r(1))
  show "failedLoginAttempts (snd (login env req now s)) (lockout_key req) = None"
    by (simp add: r(2))
  show "fst (findOrCreate (user_id u) (baskets s)) \<in> set (baskets (snd (login env req now s)))"
    by (simp add: r(4) findOrCreate_member)
  show "UserId (fst (findOrCreate (user_id u) (baskets s))) = user_id u"
    by (rule findOrCreate_owner)
  show "findOrCreate (user_id u) (baskets (snd (login env req now s))) =
        (fst (findOrCreate (user_id u) (baskets s)), baskets (snd (login env req now s)))"
    by (simp add: r(4) findOrCreate_idem)
  fix env2
  have "tokenMap (snd (login env req now s)) (authorize env (no_properties\<lparr>payload_data := Some u\<rparr>)) =
      Some \<lparr>data = u, bid = Some (basket_id (fst (findOrCreate (user_id u) (baskets s))))\<rparr>"
    by (simp add: r(3))
  then show "from_request env2 (snd (login env req now s))
          (Some (authorize env (no_properties\<lparr>payload_data := Some u\<rparr>))) =
        (if expired env2 (authorize env (no_properties\<lparr>payload_data := Some u\<rparr>)) then None
         else Some \<lparr>data = u,
                    bid = Some (basket_id (fst (findOrCreate (user_id u) (baskets s))))\<rparr>)"
    by (rule from_request_registered)
next
  assume up: "\<not> down env FindOne" and rejected: "down env FindOrCreate"
    and found: "findOne (users s) (or_empty (body_email req))
     (hashPassword env (or_empty (body_password req))) = Some u"
    and u: "user_id u \<noteq> 0" "totpSecret u = []"
    and unlocked: "\<not> locked_out s (lockout_key req) now"
  note r = login_plain_rejected[OF up rejected found u unlocked]
  show "fst (login env req now s) = Next None persistence_error" by (rule r(1))
  show "failedLoginAttempts (snd (login env req now s)) (lockout_key req) = None"
    by (simp add: r(2))
  show "tokenMap (snd (login env req now s)) = tokenMap s" by (rule r(3))
  show "baskets (snd (login env req now s)) = baskets s" by (rule r(4))
qed

theorem login_plain_session_witness:
  "fst (login demo_env (login_as ''a@x.com'' ''p'') 0 demo_state) =
     Send 200 (Authentication ''session.a@x.com'' 1 ''a@x.com'') \<and>
   failedLoginAttempts (snd (login demo_env (login_as ''a@x.com'' ''p'') 0 demo_state))
     ''a@x.com:::1'' = None \<and>
   \<lparr>basket_id = 1, UserId = 1\<rparr> \<in> set (baskets (snd (login demo_env (login_as ''a@x.com'' ''p'') 0 demo_state))) \<and>
   from_request demo_env (snd (login demo_env (login_as ''a@x.com'' ''p'') 0 demo_state))
     (Some ''session.a@x.com'') = Some \<lparr>data = alice, bid = Some 1\<rparr> \<and>
   from_request (demo_env\<lparr>expired := (\<lambda>t. True)\<rparr>)
     (snd (login demo_env (login_as ''a@x.com'' ''p'') 0 demo_state))
     (Some ''session.a@x.com'') = None"
proof -
  let ?req = "login_as ''a@x.com'' ''p''"
  have h: "\<not> down demo_env FindOne \<and>
     findOne (users demo_state) (or_empty (body_email ?req))
       (hashPassword demo_env (or_empty (body_password ?req))) = Some alice \<and>
     user_id alice \<noteq> 0 \<and> totpSecret alice = [] \<and>
     \<not> locked_out demo_state (lockout_key ?req) 0"
    using demo_findOne_alice by (simp add: alice_def locked_out_def demo_state_def initial_def)
  have up: "\<not> down demo_env FindOrCreate" by simp
  have auth: "authorize demo_env (no_properties\<lparr>payload_data := Some alice\<rparr>) = ''session.a@x.com''"
    by (simp add: demo_env_def demo_authorize_def no_properties_def alice_def)
  have b: "fst (findOrCreate i []) = \<lparr>basket_id = 1, UserId = i\<rparr>" for i
    by (simp add: findOrCreate_def Let_def)
  have e: "email alice = ''a@x.com''" "user_id alice = 1" by (simp_all add: alice_def)
  have x: "\<not> expired demo_env t" "expired (demo_env\<lparr>expired := (\<lambda>t. True)\<rparr>) t" for t
    by (simp_all add: demo_env_def)
  note T = login_plain_session[of demo_env demo_state ?req alice 0, THEN mp, OF h,
      THEN conjunct1, THEN mp, OF up]
  note F = T[THEN conjunct2, THEN conjunct2, THEN conjunct2, THEN conjunct2, THEN conjunct2]
  from T F[THEN spec, of demo_env] F[THEN spec, of "demo_env\<lparr>expired := (\<lambda>t. True)\<rparr>"]
  show ?thesis by (simp add: auth b e x demo_lockout_key)
qed

text \<open>
  The first user's email and password, the key not locked, and the basket call rejected:
  the answer is the error handed to \<^verbatim>\<open>next\<close>, and no session is registered.
\<close>

theorem login_basket_rejected_counterexample:
  "findOne (users demo_state) (or_empty (body_email (login_as ''a@x.com'' ''p'')))
     (hashPassword basket_down_env (or_empty (body_password (login_as ''a@x.com'' ''p'')))) =
     Some alice \<and>
   totpSecret alice = [] \<and>
   failedLoginAttempts demo_state (lockout_key (login_as ''a@x.com'' ''p'')) = None \<and>
   fst (login basket_down_env (login_as ''a@x.com'' ''p'') 0 demo_state) =
     Next None persistence_error \<and>
   tokenMap (snd (login basket_down_env (login_as ''a@x.com'' ''p'') 0 demo_state))
     ''session.a@x.com'' = None \<and>
   baskets (snd (login basket_down_env (login_as ''a@x.com'' ''p'') 0 demo_state)) = []"
proof -
  let ?req = "login_as ''a@x.com'' ''p''"
  have hp: "hashPassword basket_down_env = hashPassword demo_env"
    by (simp add: basket_down_env_def)
  have f: "findOne (users demo_state) (or_empty (body_email ?req))
     (hashPassword basket_down_env (or_empty (body_password ?req))) = Some alice"
    using demo_findOne_alice by (simp add: hp)
  have d: "\<not> down basket_down_env FindOne" "down basket_down_env FindOrCreate"
    by (simp_all add: basket_down_env_def demo_env_def)
  have a: "user_id alice \<noteq> 0" "totpSecret alice = []" by (simp_all add: alice_def)
  have n: "failedLoginAttempts demo_state (lockout_key ?req) = None"
    by (simp add: demo_state_def initial_def)
  then have u: "\<not> locked_out demo_state (lockout_key ?req) 0"
    by (simp add: locked_out_def)
  note r = login_plain_rejected[OF d f a u]
  have t: "tokenMap demo_state ''session.a@x.com'' = None"
    by (simp add: demo_state_def initial_def)
  from f a(2) n r(1) r(3) r(4) t show ?thesis by simp
qed

section \<open>The tracker and overlapping handlers\<close>

lemma verify_tracker: "failedLoginAttempts (snd (verify env req s)) = failedLoginAttempts s"
  by (simp add: verify_def Let_def split: option.splits prod.splits)

lemma status_state: "snd (status env b s) = s"
  by (simp add: status_def Let_def split: option.splits)

lemma updateFrom_tracker [simp]:
  "failedLoginAttempts (updateFrom b u s) = failedLoginAttempts s"
  by (simp add: updateFrom_def split: option.splits)

lemma setup_tracker: "failedLoginAttempts (snd (setup_2fa env req s)) = failedLoginAttempts s"
  by (simp add: setup_2fa_def Let_def split: option.splits)

lemma disable_tracker: "failedLoginAttempts (snd (disable env b pw s)) = failedLoginAttempts s"
  by (simp add: disable_def Let_def split: option.splits)

lemma login_try_tracker:
  "failedLoginAttempts (snd (login_try env req now key s)) = failedLoginAttempts s \<or>
   failedLoginAttempts (snd (login_try env req now key s)) = (failedLoginAttempts s)(key := None) \<or>
   failedLoginAttempts (snd (login_try env req now key s)) =
     (failedLoginAttempts s)
       (key \<mapsto> \<lparr>count = (case failedLoginAttempts s key of None \<Rightarrow> 1 | Some a \<Rightarrow> count a + 1),
                lastAttempt = now\<rparr>)"
  by (simp add: login_try_def Let_def afterLogin_tracker recordFailure_entry split: option.splits)

lemma login_try_within_limit:
  assumes inv: "\<forall>k a. failedLoginAttempts s k = Some a \<longrightarrow> count a \<le> FAILED_ATTEMPTS_LIMIT"
    and below: "\<forall>a. failedLoginAttempts s key = Some a \<longrightarrow> count a < FAILED_ATTEMPTS_LIMIT"
  shows "\<forall>k a. failedLoginAttempts (snd (login_try env req now key s)) k = Some a \<longrightarrow>
           count a \<le> FAILED_ATTEMPTS_LIMIT"
proof -
  let ?m = "failedLoginAttempts (snd (login_try env req now key s))"
  have new: "(case failedLoginAttempts s key of None \<Rightarrow> 1 | Some a \<Rightarrow> count a + 1)
      \<le> FAILED_ATTEMPTS_LIMIT"
    using below by (cases "failedLoginAttempts s key") (simp_all add: FAILED_ATTEMPTS_LIMIT_def)
  consider "?m = failedLoginAttempts s" | "?m = (failedLoginAttempts s)(key := None)"
    | "?m = (failedLoginAttempts s)
       (key \<mapsto> \<lparr>count = (case failedLoginAttempts s key of None \<Rightarrow> 1 | Some a \<Rightarrow> count a + 1),
                lastAttempt = now\<rparr>)"
    using login_try_tracker[of env req now key s] by blast
  then show ?thesis
  proof cases
    case 1
    then show ?thesis using inv by simp
  next
    case 2
    then show ?thesis using inv by simp
  next
    case 3
    show ?thesis
    proof (intro allI impI)
      fix k a
      assume "?m k = Some a"
      then show "count a \<le> FAILED_ATTEMPTS_LIMIT"
        using 3 inv new by (cases "k = key") auto
    qed
  qed
qed

lemma login_within_limit:
  assumes inv: "\<forall>k a. failedLoginAttempts s k = Some a \<longrightarrow> count a \<le> FAILED_ATTEMPTS_LIMIT"
  shows "\<forall>k a. failedLoginAttempts (snd (login env req now s)) k = Some a \<longrightarrow>
           count a \<le> FAILED_ATTEMPTS_LIMIT"
proof -
  let ?k = "lockout_key req"
  let ?r = "recordSuccess ?k s"
  have direct: "\<forall>k a. failedLoginAttempts (snd (login_try env req now ?k s)) k = Some a \<longrightarrow>
           count a \<le> FAILED_ATTEMPTS_LIMIT"
    if "\<forall>a. failedLoginAttempts s ?k = Some a \<longrightarrow> count a < FAILED_ATTEMPTS_LIMIT"
    using inv that by (rule login_try_within_limit)
  have inv_r: "\<forall>k a. failedLoginAttempts ?r k = Some a \<longrightarrow> count a \<le> FAILED_ATTEMPTS_LIMIT"
    using inv by simp
  have below_r: "\<forall>a. failedLoginAttempts ?r ?k = Some a \<longrightarrow> count a < FAILED_ATTEMPTS_LIMIT"
    by simp
  have reset: "\<forall>k a. failedLoginAttempts (snd (login_try env req now ?k ?r)) k = Some a \<longrightarrow>
           count a \<le> FAILED_ATTEMPTS_LIMIT"
    using inv_r below_r by (rule login_try_within_limit)
  show ?thesis
  proof (cases "failedLoginAttempts s ?k")
    case None
    then have eq: "login env req now s = login_try env req now ?k s"
      by (simp add: login_def Let_def)
    have "\<forall>a. failedLoginAttempts s ?k = Some a \<longrightarrow> count a < FAILED_ATTEMPTS_LIMIT"
      using None by simp
    from direct[OF this] show ?thesis unfolding eq .
  next
    case (Some a)
    show ?thesis
    proof (cases "count a \<ge> FAILED_ATTEMPTS_LIMIT")
      case False
      then have eq: "login env req now s = login_try env req now ?k s"
        using Some by (simp add: login_def Let_def)
      have "\<forall>a. failedLoginAttempts s ?k = Some a \<longrightarrow> count a < FAILED_ATTEMPTS_LIMIT"
        using Some False by simp
      from direct[OF this] show ?thesis unfolding eq .
    next
      case True
      show ?thesis
      proof (cases "now - lastAttempt a < LOCK_TIME_MS")
        case True
        have eq: "login env req now s = (Send 429 (Text too_many), s)"
          using Some \<open>count a \<ge> FAILED_ATTEMPTS_LIMIT\<close> True by (simp add: login_def Let_def)
        show ?thesis unfolding eq snd_conv by (rule inv)
      next
        case False
        have eq: "login env req now s = login_try env req now ?k ?r"
          using Some True False by (simp add: login_def Let_def)
        from reset show ?thesis unfolding eq .
      qed
    qed
  qed
qed

lemma login_hashed:
  "\<not> locked_out s (lockout_key req) now \<Longrightarrow>
   hashed (snd (login env req now s)) = hashed s @ [or_empty (body_password req)]"
  using login_unlocked[of s req now env] by (auto simp: login_try_hashed)

lemma login_try_resumed:
  "resume_all 3 (Inr (AwaitHash env req now),
      s\<lparr>hashed := hashed s @ [or_empty (body_password req)]\<rparr>) =
   (Inl (fst (login_try env req now (lockout_key req) s)),
    snd (login_try env req now (lockout_key req) s))"
  by (simp add: eval_nat_numeral login_try_def afterLogin_def Let_def recordSuccess_def
      recordFailure_def put_def split: option.splits prod.splits)

lemma login_uninterrupted:
  "resume_all 3 (login_start env req now s) =
   (Inl (fst (login env req now s)), snd (login env req now s))"
proof -
  let ?k = "lockout_key req"
  have r: "(recordSuccess ?k s)\<lparr>hashed := hashed s @ [or_empty (body_password req)]\<rparr> =
      (recordSuccess ?k s)\<lparr>hashed := hashed (recordSuccess ?k s) @ [or_empty (body_password req)]\<rparr>"
    by simp
  show ?thesis
  proof (cases "failedLoginAttempts s ?k")
    case None
    then show ?thesis
      by (simp add: login_start_def login_def Let_def login_try_resumed)
  next
    case (Some a)
    show ?thesis
    proof (cases "count a \<ge> FAILED_ATTEMPTS_LIMIT")
      case False
      then show ?thesis
        using Some by (simp add: login_start_def login_def Let_def login_try_resumed)
    next
      case True
      show ?thesis
      proof (cases "now - lastAttempt a < LOCK_TIME_MS")
        case True
        then show ?thesis
          using Some \<open>count a \<ge> FAILED_ATTEMPTS_LIMIT\<close>
          by (simp add: login_start_def login_def Let_def eval_nat_numeral)
      next
        case False
        have "resume_all 3 (login_start env req now s) =
            resume_all 3 (Inr (AwaitHash env req now),
              (recordSuccess ?k s)\<lparr>hashed := hashed (recordSuccess ?k s) @ [or_empty (body_password req)]\<rparr>)"
          using Some True False by (simp add: login_start_def Let_def)
        also have "\<dots> = (Inl (fst (login_try env req now ?k (recordSuccess ?k s))),
            snd (login_try env req now ?k (recordSuccess ?k s)))"
          by (rule login_try_resumed)
        finally show ?thesis
          using Some True False by (simp add: login_def Let_def)
      qed
    qed
  qed
qed

lemma login_start_locked:
  "locked_out s (lockout_key req) now \<Longrightarrow>
   login_start env req now s = (Inl (Send 429 (Text too_many)), s)"
  by (auto simp: locked_out_def login_start_def Let_def split: option.splits)

text \<open>
  C4 fails on the code where handlers overlap. Seven requests with a wrong password for
  the same email and origin arrive, each before any of the others has resumed from its
  first \<^verbatim>\<open>await\<close>. Each passes the test of line 38, since no entry exists yet; when
  they resume, each runs lines 79 to 84. The entry then has count 7, above the limit of
  5, its last failure is at the current time, so its window is active, and all seven
  were answered 401, none 429. Served one after the other, the same seven requests leave
  count 5 and the last two are answered 429 at once.
\<close>

theorem overlapping_logins_exceed_limit:
  "failedLoginAttempts
     (shared (schedule (idle demo_state) (replicate 7 bad_login @ replicate 14 (Resume 0))))
     ''a@x.com:::1'' = Some \<lparr>count = 7, lastAttempt = 0\<rparr> \<and>
   answered (schedule (idle demo_state) (replicate 7 bad_login @ replicate 14 (Resume 0))) =
     replicate 7 (Send 401 (Text invalid_login)) \<and>
   length (waiting (schedule (idle demo_state) (replicate 7 bad_login @ replicate 14 (Resume 0)))) = 0 \<and>
   FAILED_ATTEMPTS_LIMIT < 7 \<and> (0::int) - 0 < LOCK_TIME_MS \<and>
   failedLoginAttempts
     (shared (schedule (idle demo_state) (concat (replicate 7 [bad_login, Resume 0, Resume 0]))))
     ''a@x.com:::1'' = Some \<lparr>count = 5, lastAttempt = 0\<rparr> \<and>
   answered (schedule (idle demo_state) (concat (replicate 7 [bad_login, Resume 0, Resume 0]))) =
     replicate 5 (Send 401 (Text invalid_login)) @ replicate 2 (Send 429 (Text too_many))"
  by code_simp

section \<open>Properties of the second-factor routes\<close>

lemma verify_cases:
  "verify env req s = (Send 401 Empty, s) \<or>
   (\<exists>p i u. security_verify env (body_tmpToken req) \<and> decode env (body_tmpToken req) = Some p \<and>
      type_tag p = Some needs_second_factor \<and> userId p = Some i \<and>
      findByPk (users s) i = Some u \<and> check env (body_totpToken req) (totpSecret u) \<and>
      \<not> down env FindByPk \<and> \<not> down env FindOrCreate \<and>
      verify env req s =
        (Send 200 (Authentication (authorize env (no_properties\<lparr>payload_data := Some u\<rparr>))
           (basket_id (fst (findOrCreate i (baskets s)))) (email u)),
         put (authorize env (no_properties\<lparr>payload_data := Some u\<rparr>))
           \<lparr>data = u, bid = Some (basket_id (fst (findOrCreate i (baskets s))))\<rparr>
           (s\<lparr>baskets := snd (findOrCreate i (baskets s))\<rparr>)))"
proof (cases "security_verify env (body_tmpToken req)")
  case False
  then show ?thesis
    by (simp add: verify_def verified_payload_def no_properties_def)
next
  case True
  then show ?thesis
    by (simp add: verify_def verified_payload_def Let_def split: option.splits prod.splits)
qed

text \<open>
  C2. If the submitted pending token fails the signature check, or cannot be decoded, or
  decodes to a payload whose type is not \<^verbatim>\<open>password_valid_needs_second_factor_token\<close>
  (a verified token of the setup type, for one), or whose \<^verbatim>\<open>userId\<close> is missing or
  finds no record, or the submitted code does not check against the record's secret,
  then the answer is status 401 with an empty body and the state is unchanged. Every
  answer of the route is either this one rejection or the 200 authentication answer, so
  a rejected persistence call is answered the same way.
\<close>

theorem verify_uniform_rejection:
  "(\<not> security_verify env (body_tmpToken req) \<or>
    decode env (body_tmpToken req) = None \<or>
    (\<exists>p. decode env (body_tmpToken req) = Some p \<and>
       (type_tag p \<noteq> Some needs_second_factor \<or>
        userId p = None \<or>
        (\<exists>i. userId p = Some i \<and>
           (findByPk (users s) i = None \<or>
            (\<exists>u. findByPk (users s) i = Some u \<and>
               \<not> check env (body_totpToken req) (totpSecret u))))))
    \<longrightarrow> verify env req s = (Send 401 Empty, s)) \<and>
   (fst (verify env req s) = Send 401 Empty \<or>
    (\<exists>t b m. fst (verify env req s) = Send 200 (Authentication t b m)))"
proof (intro conjI impI)
  assume bad: "\<not> security_verify env (body_tmpToken req) \<or>
    decode env (body_tmpToken req) = None \<or>
    (\<exists>p. decode env (body_tmpToken req) = Some p \<and>
       (type_tag p \<noteq> Some needs_second_factor \<or>
        userId p = None \<or>
        (\<exists>i. userId p = Some i \<and>
           (findByPk (users s) i = None \<or>
            (\<exists>u. findByPk (users s) i = Some u \<and>
               \<not> check env (body_totpToken req) (totpSecret u))))))"
  from verify_cases[of env req s] show "verify env req s = (Send 401 Empty, s)"
  proof
    assume "verify env req s = (Send 401 Empty, s)"
    then show ?thesis .
  next
    assume "\<exists>p i u. security_verify env (body_tmpToken req) \<and>
      decode env (body_tmpToken req) = Some p \<and>
      type_tag p = Some needs_second_factor \<and> userId p = Some i \<and>
      findByPk (users s) i = Some u \<and> check env (body_totpToken req) (totpSecret u) \<and>
      \<not> down env FindByPk \<and> \<not> down env FindOrCreate \<and>
      verify env req s =
        (Send 200 (Authentication (authorize env (no_properties\<lparr>payload_data := Some u\<rparr>))
           (basket_id (fst (findOrCreate i (baskets s)))) (email u)),
         put (authorize env (no_properties\<lparr>payload_data := Some u\<rparr>))
           \<lparr>data = u, bid = Some (basket_id (fst (findOrCreate i (baskets s))))\<rparr>
           (s\<lparr>baskets := snd (findOrCreate i (baskets s))\<rparr>))"
    then obtain p i u where ok: "security_verify env (body_tmpToken req)"
      "decode env (body_tmpToken req) = Some p" "type_tag p = Some needs_second_factor"
      "userId p = Some i" "findByPk (users s) i = Some u"
      "check env (body_totpToken req) (totpSecret u)"
      by blast
    with bad show ?thesis by auto
  qed
next
  from verify_cases[of env req s]
  show "fst (verify env req s) = Send 401 Empty \<or>
    (\<exists>t b m. fst (verify env req s) = Send 200 (Authentication t b m))"
    by auto
qed

theorem verify_uniform_rejection_witness:
  "decode demo_env ''totp_setup_secret.KVKFKRCP'' =
     Some \<lparr>userId = None, type_tag = Some totp_setup_secret, secret = Some ''KVKFKRCP'',
           payload_data = None\<rparr> \<and>
   security_verify demo_env ''totp_setup_secret.KVKFKRCP'' \<and>
   verify demo_env \<lparr>body_tmpToken = ''totp_setup_secret.KVKFKRCP'', body_totpToken = ''000000''\<rparr>
     demo_state = (Send 401 Empty, demo_state)"
proof -
  let ?req = "\<lparr>body_tmpToken = ''totp_setup_secret.KVKFKRCP'', body_totpToken = ''000000''\<rparr>"
  let ?p = "\<lparr>userId = None, type_tag = Some totp_setup_secret, secret = Some ''KVKFKRCP'',
           payload_data = None\<rparr>"
  have d: "decode demo_env ''totp_setup_secret.KVKFKRCP'' = Some ?p"
    by (simp add: demo_env_def demo_decode_def needs_second_factor_def totp_setup_secret_def
        no_properties_def)
  then have v: "security_verify demo_env ''totp_setup_secret.KVKFKRCP''"
    by (simp add: demo_env_def)
  have ne: "type_tag ?p \<noteq> Some needs_second_factor"
    by (simp add: needs_second_factor_def totp_setup_secret_def)
  have bad: "\<not> security_verify demo_env (body_tmpToken ?req) \<or>
    decode demo_env (body_tmpToken ?req) = None \<or>
    (\<exists>p. decode demo_env (body_tmpToken ?req) = Some p \<and>
       (type_tag p \<noteq> Some needs_second_factor \<or>
        userId p = None \<or>
        (\<exists>i. userId p = Some i \<and>
           (findByPk (users demo_state) i = None \<or>
            (\<exists>u. findByPk (users demo_state) i = Some u \<and>
               \<not> check demo_env (body_totpToken ?req) (totpSecret u))))))"
    using d ne by simp
  from verify_uniform_rejection[of demo_env ?req demo_state, THEN conjunct1, THEN mp, OF bad] d v
  show ?thesis by simp
qed

text \<open>
  C8. Without a session resolved from the request (no token, a token never registered,
  or one past its expiry), status answers 401. For a session
  whose identity has an empty TOTP secret it answers 200 with \<^verbatim>\<open>setup: false\<close>, the secret
  the generator returned, the email, and a setup token that is the signature of the
  payload with type \<^verbatim>\<open>totp_setup_secret\<close> and exactly that secret. For an identity
  with a non-empty secret it answers 200 with \<^verbatim>\<open>setup: true\<close> alone, a body with neither
  a secret nor a token. The state is unchanged in each case.
\<close>

theorem status_cases:
  "(from_request env s b = None \<longrightarrow> status env b s = (Send 401 Empty, s)) \<and>
   (\<forall>d. from_request env s b = Some d \<and> totpSecret (data d) = [] \<longrightarrow>
      status env b s =
        (Send 200 (SetupData (generateSecret env) (email (data d))
           (authorize env
              \<lparr>userId = None, type_tag = Some totp_setup_secret,
               secret = Some (generateSecret env), payload_data = None\<rparr>)), s)) \<and>
   (\<forall>d. from_request env s b = Some d \<and> totpSecret (data d) \<noteq> [] \<longrightarrow>
      status env b s = (Send 200 SetupDone, s))"
  by (simp add: status_def Let_def no_properties_def)

theorem status_cases_witness:
  "status demo_env None demo_state = (Send 401 Empty, demo_state) \<and>
   status demo_env (Some ''session.a@x.com'') alice_session =
     (Send 200 (SetupData ''KVKFKRCP'' ''a@x.com'' ''totp_setup_secret.KVKFKRCP''), alice_session) \<and>
   decode demo_env ''totp_setup_secret.KVKFKRCP'' =
     Some \<lparr>userId = None, type_tag = Some totp_setup_secret, secret = Some ''KVKFKRCP'',
           payload_data = None\<rparr> \<and>
   status demo_env (Some ''session.b@x.com'') bob_session = (Send 200 SetupDone, bob_session) \<and>
   status (demo_env\<lparr>expired := (\<lambda>t. True)\<rparr>) (Some ''session.a@x.com'') alice_session =
     (Send 401 Empty, alice_session)"
proof -
  have n: "from_request demo_env demo_state None = None"
    by (simp add: from_request_def)
  have x: "from_request (demo_env\<lparr>expired := (\<lambda>t. True)\<rparr>) alice_session
      (Some ''session.a@x.com'') = None"
    by (simp add: from_request_def)
  have a: "from_request demo_env alice_session (Some ''session.a@x.com'') = Some \<lparr>data = alice, bid = Some 1\<rparr> \<and>
      totpSecret (data \<lparr>data = alice, bid = Some 1\<rparr>) = []"
    by (simp add: from_request_def alice_session_def alice_def demo_env_def)
  have b: "from_request demo_env bob_session (Some ''session.b@x.com'') = Some \<lparr>data = bob, bid = Some 1\<rparr> \<and>
      totpSecret (data \<lparr>data = bob, bid = Some 1\<rparr>) \<noteq> []"
    by (simp add: from_request_def bob_session_def bob_def demo_env_def)
  have g: "generateSecret demo_env = ''KVKFKRCP''" "email alice = ''a@x.com''"
    by (simp_all add: demo_env_def alice_def)
  have auth: "authorize demo_env
      \<lparr>userId = None, type_tag = Some totp_setup_secret, secret = Some ''KVKFKRCP'',
       payload_data = None\<rparr> = ''totp_setup_secret.KVKFKRCP''"
    by (simp add: demo_env_def demo_authorize_def totp_setup_secret_def or_empty_def)
  have d: "decode demo_env ''totp_setup_secret.KVKFKRCP'' =
     Some \<lparr>userId = None, type_tag = Some totp_setup_secret, secret = Some ''KVKFKRCP'',
           payload_data = None\<rparr>"
    by (simp add: demo_env_def demo_decode_def needs_second_factor_def totp_setup_secret_def
        no_properties_def)
  from status_cases[of demo_env demo_state None, THEN conjunct1, THEN mp, OF n]
    status_cases[of demo_env alice_session "Some ''session.a@x.com''",
      THEN conjunct2, THEN conjunct1, THEN spec, THEN mp, OF a]
    status_cases[of demo_env bob_session "Some ''session.b@x.com''",
      THEN conjunct2, THEN conjunct2, THEN spec, THEN mp, OF b]
    status_cases[of "demo_env\<lparr>expired := (\<lambda>t. True)\<rparr>" alice_session
      "Some ''session.a@x.com''", THEN conjunct1, THEN mp, OF x]
    d
  show ?thesis by (simp add: g auth)
qed

lemma setup_cases:
  "setup_2fa env req s = (Send 401 Empty, s) \<or>
   setup_2fa env req s = (Send 401 Empty, s\<lparr>hashed := hashed s @ [confirm_password req]\<rparr>) \<or>
   (\<exists>d p sec um. from_request env s (bearer req) = Some d \<and>
      constantTimeCompare env (password (data d)) (hash env (confirm_password req)) \<and>
      totpSecret (data d) = [] \<and>
      security_verify env (body_setupToken req) \<and> decode env (body_setupToken req) = Some p \<and>
      type_tag p = Some totp_setup_secret \<and> secret p = Some sec \<and>
      check env (body_initialToken req) sec \<and>
      \<not> down env FindByPk \<and> findByPk (users s) (user_id (data d)) = Some um \<and>
      \<not> down env Save \<and>
      setup_2fa env req s =
        (Send 200 Empty,
         updateFrom (bearer req) \<lparr>data = um\<lparr>totpSecret := sec\<rparr>, bid = None\<rparr>
           (s\<lparr>hashed := hashed s @ [confirm_password req],
              users := save (um\<lparr>totpSecret := sec\<rparr>) (users s)\<rparr>)))"
proof (cases "security_verify env (body_setupToken req)")
  case False
  then show ?thesis
    by (simp add: setup_2fa_def verified_payload_def no_properties_def Let_def split: option.splits)
next
  case True
  then show ?thesis
    by (simp add: setup_2fa_def verified_payload_def Let_def split: option.splits)
qed

lemma setup_success:
  assumes "from_request env s (bearer req) = Some d"
    and "constantTimeCompare env (password (data d)) (hash env (confirm_password req))"
    and "totpSecret (data d) = []"
    and "security_verify env (body_setupToken req)" and "decode env (body_setupToken req) = Some p"
    and "type_tag p = Some totp_setup_secret" and "secret p = Some sec"
    and "check env (body_initialToken req) sec"
    and "\<not> down env FindByPk" and "findByPk (users s) (user_id (data d)) = Some um"
    and "\<not> down env Save"
  shows "setup_2fa env req s =
        (Send 200 Empty,
         updateFrom (bearer req) \<lparr>data = um\<lparr>totpSecret := sec\<rparr>, bid = None\<rparr>
           (s\<lparr>hashed := hashed s @ [confirm_password req],
              users := save (um\<lparr>totpSecret := sec\<rparr>) (users s)\<rparr>))"
  using assms by (simp add: setup_2fa_def verified_payload_def Let_def)

lemma setup_enrolled_rejected:
  assumes "bearer req = Some t" and "tokenMap s t = Some d" and "totpSecret (data d) \<noteq> []"
  shows "fst (setup_2fa env req s) = Send 401 Empty"
  using assms by (simp add: setup_2fa_def from_request_def Let_def)

lemma from_request_bearer:
  "from_request env s b = Some d \<Longrightarrow> \<exists>t. b = Some t \<and> \<not> expired env t \<and> tokenMap s t = Some d"
  by (auto simp: from_request_def split: option.splits if_splits)

lemma updateFrom_tokenMap: "tokenMap (updateFrom (Some t) u s) t = Some u"
  by (simp add: updateFrom_def)

lemma updateFrom_users [simp]: "users (updateFrom b u s) = users s"
  by (simp add: updateFrom_def split: option.splits)

text \<open>
  C5, as amended. Take a request whose session snapshot, when the credential record of
  its identity exists, agrees with that record on the password hash and on the TOTP
  secret (what the route does with a snapshot that has fallen behind its record is left
  out). Then the setup route answers 200 exactly when a session resolves for the request,
  the credential record of the session's identity is still found, the comparator accepts
  the stored hash against the hash of the submitted password, the identity's TOTP secret
  is empty, the setup token verifies and decodes to type \<^verbatim>\<open>totp_setup_secret\<close> with
  a secret, the submitted code checks against that secret, and the persistence calls
  answer. On success the secret is written to the record and the session's snapshot is
  replaced by the saved record; after a success with a non-empty secret every further
  setup call on the same session answers 401. In every case an answer other than 200 is
  the 401 with empty body, and neither the table nor the registry changes.
\<close>

theorem setup_succeeds_iff:
  "(fst (setup_2fa env req s) \<noteq> Send 200 Empty \<longrightarrow>
      fst (setup_2fa env req s) = Send 401 Empty \<and>
      users (snd (setup_2fa env req s)) = users s \<and>
      tokenMap (snd (setup_2fa env req s)) = tokenMap s) \<and>
   ((\<forall>d um. from_request env s (bearer req) = Some d \<and>
        findByPk (users s) (user_id (data d)) = Some um \<longrightarrow>
        password um = password (data d) \<and> totpSecret um = totpSecret (data d)) \<longrightarrow>
    (fst (setup_2fa env req s) = Send 200 Empty \<longleftrightarrow>
       (\<exists>d p sec um. from_request env s (bearer req) = Some d \<and>
          findByPk (users s) (user_id (data d)) = Some um \<and>
          constantTimeCompare env (password um) (hash env (confirm_password req)) \<and>
          totpSecret um = [] \<and>
          security_verify env (body_setupToken req) \<and>
          decode env (body_setupToken req) = Some p \<and>
          type_tag p = Some totp_setup_secret \<and> secret p = Some sec \<and>
          check env (body_initialToken req) sec \<and>
          \<not> down env FindByPk \<and> \<not> down env Save)) \<and>
    (\<forall>d p sec um. from_request env s (bearer req) = Some d \<and>
          findByPk (users s) (user_id (data d)) = Some um \<and>
          constantTimeCompare env (password um) (hash env (confirm_password req)) \<and>
          totpSecret um = [] \<and>
          security_verify env (body_setupToken req) \<and>
          decode env (body_setupToken req) = Some p \<and>
          type_tag p = Some totp_setup_secret \<and> secret p = Some sec \<and>
          check env (body_initialToken req) sec \<and>
          \<not> down env FindByPk \<and> \<not> down env Save \<longrightarrow>
       users (snd (setup_2fa env req s)) = save (um\<lparr>totpSecret := sec\<rparr>) (users s) \<and>
       from_request env (snd (setup_2fa env req s)) (bearer req) =
         Some \<lparr>data = um\<lparr>totpSecret := sec\<rparr>, bid = None\<rparr> \<and>
       (sec \<noteq> [] \<longrightarrow>
          (\<forall>env2 req2. bearer req2 = bearer req \<longrightarrow>
             fst (setup_2fa env2 req2 (snd (setup_2fa env req s))) = Send 401 Empty))))"
proof (intro conjI)
  show "fst (setup_2fa env req s) \<noteq> Send 200 Empty \<longrightarrow>
      fst (setup_2fa env req s) = Send 401 Empty \<and>
      users (snd (setup_2fa env req s)) = users s \<and>
      tokenMap (snd (setup_2fa env req s)) = tokenMap s"
  proof
    assume "fst (setup_2fa env req s) \<noteq> Send 200 Empty"
    with setup_cases[of env req s]
    have "setup_2fa env req s = (Send 401 Empty, s) \<or>
      setup_2fa env req s = (Send 401 Empty, s\<lparr>hashed := hashed s @ [confirm_password req]\<rparr>)"
      by auto
    then show "fst (setup_2fa env req s) = Send 401 Empty \<and>
      users (snd (setup_2fa env req s)) = users s \<and>
      tokenMap (snd (setup_2fa env req s)) = tokenMap s"
      by auto
  qed
next
  show "(\<forall>d um. from_request env s (bearer req) = Some d \<and>
        findByPk (users s) (user_id (data d)) = Some um \<longrightarrow>
        password um = password (data d) \<and> totpSecret um = totpSecret (data d)) \<longrightarrow>
    (fst (setup_2fa env req s) = Send 200 Empty \<longleftrightarrow>
       (\<exists>d p sec um. from_request env s (bearer req) = Some d \<and>
          findByPk (users s) (user_id (data d)) = Some um \<and>
          constantTimeCompare env (password um) (hash env (confirm_password req)) \<and>
          totpSecret um = [] \<and>
          security_verify env (body_setupToken req) \<and>
          decode env (body_setupToken req) = Some p \<and>
          type_tag p = Some totp_setup_secret \<and> secret p = Some sec \<and>
          check env (body_initialToken req) sec \<and>
          \<not> down env FindByPk \<and> \<not> down env Save)) \<and>
    (\<forall>d p sec um. from_request env s (bearer req) = Some d \<and>
          findByPk (users s) (user_id (data d)) = Some um \<and>
          constantTimeCompare env (password um) (hash env (confirm_password req)) \<and>
          totpSecret um = [] \<and>
          security_verify env (body_setupToken req) \<and>
          decode env (body_setupToken req) = Some p \<and>
          type_tag p = Some totp_setup_secret \<and> secret p = Some sec \<and>
          check env (body_initialToken req) sec \<and>
          \<not> down env FindByPk \<and> \<not> down env Save \<longrightarrow>
       users (snd (setup_2fa env req s)) = save (um\<lparr>totpSecret := sec\<rparr>) (users s) \<and>
       from_request env (snd (setup_2fa env req s)) (bearer req) =
         Some \<lparr>data = um\<lparr>totpSecret := sec\<rparr>, bid = None\<rparr> \<and>
       (sec \<noteq> [] \<longrightarrow>
          (\<forall>env2 req2. bearer req2 = bearer req \<longrightarrow>
             fst (setup_2fa env2 req2 (snd (setup_2fa env req s))) = Send 401 Empty)))"
  proof (intro impI conjI allI)
    assume agree: "\<forall>d um. from_request env s (bearer req) = Some d \<and>
        findByPk (users s) (user_id (data d)) = Some um \<longrightarrow>
        password um = password (data d) \<and> totpSecret um = totpSecret (data d)"
    show "fst (setup_2fa env req s) = Send 200 Empty \<longleftrightarrow>
       (\<exists>d p sec um. from_request env s (bearer req) = Some d \<and>
          findByPk (users s) (user_id (data d)) = Some um \<and>
          constantTimeCompare env (password um) (hash env (confirm_password req)) \<and>
          totpSecret um = [] \<and>
          security_verify env (body_setupToken req) \<and>
          decode env (body_setupToken req) = Some p \<and>
          type_tag p = Some totp_setup_secret \<and> secret p = Some sec \<and>
          check env (body_initialToken req) sec \<and>
          \<not> down env FindByPk \<and> \<not> down env Save)"
      (is "?l \<longleftrightarrow> ?r")
    proof
      assume ?l
      with setup_cases[of env req s]
      obtain d p sec um where c: "from_request env s (bearer req) = Some d"
        "constantTimeCompare env (password (data d)) (hash env (confirm_password req))"
        "totpSecret (data d) = []" "security_verify env (body_setupToken req)"
        "decode env (body_setupToken req) = Some p" "type_tag p = Some totp_setup_secret"
        "secret p = Some sec" "check env (body_initialToken req) sec"
        "\<not> down env FindByPk" "findByPk (users s) (user_id (data d)) = Some um"
        "\<not> down env Save"
        by auto
      from agree c(1) c(10)
      have "password um = password (data d)" "totpSecret um = totpSecret (data d)"
        by blast+
      with c show ?r by auto
    next
      assume ?r
      then obtain d p sec um where c: "from_request env s (bearer req) = Some d"
        "findByPk (users s) (user_id (data d)) = Some um"
        "constantTimeCompare env (password um) (hash env (confirm_password req))"
        "totpSecret um = []" "security_verify env (body_setupToken req)"
        "decode env (body_setupToken req) = Some p" "type_tag p = Some totp_setup_secret"
        "secret p = Some sec" "check env (body_initialToken req) sec"
        "\<not> down env FindByPk" "\<not> down env Save"
        by blast
      from agree c(1) c(2)
      have e: "password um = password (data d)" "totpSecret um = totpSecret (data d)"
        by blast+
      have "setup_2fa env req s =
        (Send 200 Empty,
         updateFrom (bearer req) \<lparr>data = um\<lparr>totpSecret := sec\<rparr>, bid = None\<rparr>
           (s\<lparr>hashed := hashed s @ [confirm_password req],
              users := save (um\<lparr>totpSecret := sec\<rparr>) (users s)\<rparr>))"
        using c e by (intro setup_success[where d = d and p = p]) simp_all
      then show ?l by simp
    qed
  next
    fix d p sec um
    assume agree: "\<forall>d um. from_request env s (bearer req) = Some d \<and>
        findByPk (users s) (user_id (data d)) = Some um \<longrightarrow>
        password um = password (data d) \<and> totpSecret um = totpSecret (data d)"
    assume h: "from_request env s (bearer req) = Some d \<and>
          findByPk (users s) (user_id (data d)) = Some um \<and>
          constantTimeCompare env (password um) (hash env (confirm_password req)) \<and>
          totpSecret um = [] \<and>
          security_verify env (body_setupToken req) \<and>
          decode env (body_setupToken req) = Some p \<and>
          type_tag p = Some totp_setup_secret \<and> secret p = Some sec \<and>
          check env (body_initialToken req) sec \<and>
          \<not> down env FindByPk \<and> \<not> down env Save"
    then have c: "from_request env s (bearer req) = Some d"
        "findByPk (users s) (user_id (data d)) = Some um"
        "constantTimeCompare env (password um) (hash env (confirm_password req))"
        "totpSecret um = []" "security_verify env (body_setupToken req)"
        "decode env (body_setupToken req) = Some p" "type_tag p = Some totp_setup_secret"
        "secret p = Some sec" "check env (body_initialToken req) sec"
        "\<not> down env FindByPk" "\<not> down env Save"
      by simp_all
    from agree c(1) c(2)
    have e: "password um = password (data d)" "totpSecret um = totpSecret (data d)"
      by blast+
    have r: "setup_2fa env req s =
        (Send 200 Empty,
         updateFrom (bearer req) \<lparr>data = um\<lparr>totpSecret := sec\<rparr>, bid = None\<rparr>
           (s\<lparr>hashed := hashed s @ [confirm_password req],
              users := save (um\<lparr>totpSecret := sec\<rparr>) (users s)\<rparr>))"
      using c e by (intro setup_success[where d = d and p = p]) simp_all
    from from_request_bearer[OF c(1)] obtain t where t: "bearer req = Some t" "\<not> expired env t"
      by blast
    have reg: "tokenMap (snd (setup_2fa env req s)) t =
        Some \<lparr>data = um\<lparr>totpSecret := sec\<rparr>, bid = None\<rparr>"
      unfolding r snd_conv t(1) by (rule updateFrom_tokenMap)
    show "users (snd (setup_2fa env req s)) = save (um\<lparr>totpSecret := sec\<rparr>) (users s)"
      by (simp add: r)
    show "from_request env (snd (setup_2fa env req s)) (bearer req) =
         Some \<lparr>data = um\<lparr>totpSecret := sec\<rparr>, bid = None\<rparr>"
      using reg t by (simp add: from_request_def)
    fix env2 :: env and req2 :: setup_request
    assume ne: "sec \<noteq> []" and same: "bearer req2 = bearer req"
    from same have b2: "bearer req2 = Some t" using t(1) by simp
    have enrolled: "totpSecret (data \<lparr>data = um\<lparr>totpSecret := sec\<rparr>, bid = None\<rparr>) \<noteq> []"
      using ne by simp
    from b2 reg enrolled
    show "fst (setup_2fa env2 req2 (snd (setup_2fa env req s))) = Send 401 Empty"
      by (rule setup_enrolled_rejected)
  qed
qed

lemma demo_setup_token:
  "security_verify demo_env ''totp_setup_secret.KVKFKRCP''"
  "decode demo_env ''totp_setup_secret.KVKFKRCP'' =
     Some \<lparr>userId = None, type_tag = Some totp_setup_secret, secret = Some ''KVKFKRCP'',
           payload_data = None\<rparr>"
  "check demo_env ''000000'' ''KVKFKRCP''"
  by (simp_all add: demo_env_def demo_decode_def needs_second_factor_def totp_setup_secret_def
        no_properties_def)

theorem setup_succeeds_iff_witness:
  "fst (setup_2fa demo_env (setup_as ''session.a@x.com'' ''p'') alice_session) = Send 200 Empty \<and>
   users (snd (setup_2fa demo_env (setup_as ''session.a@x.com'' ''p'') alice_session)) =
     [alice\<lparr>totpSecret := ''KVKFKRCP''\<rparr>, bob] \<and>
   from_request demo_env (snd (setup_2fa demo_env (setup_as ''session.a@x.com'' ''p'') alice_session))
     (Some ''session.a@x.com'') = Some \<lparr>data = alice\<lparr>totpSecret := ''KVKFKRCP''\<rparr>, bid = None\<rparr> \<and>
   fst (setup_2fa demo_env (setup_as ''session.a@x.com'' ''p'')
     (snd (setup_2fa demo_env (setup_as ''session.a@x.com'' ''p'') alice_session))) = Send 401 Empty"
proof -
  let ?req = "setup_as ''session.a@x.com'' ''p''"
  let ?d = "\<lparr>data = alice, bid = Some 1\<rparr>"
  let ?p = "\<lparr>userId = None, type_tag = Some totp_setup_secret, secret = Some ''KVKFKRCP'',
           payload_data = None\<rparr>"
  have f: "from_request demo_env alice_session (bearer ?req) = Some ?d"
    by (simp add: setup_as_def from_request_def alice_session_def demo_env_def)
  have k: "findByPk (users alice_session) (user_id (data ?d)) = Some alice"
    by (simp add: alice_session_def demo_state_def initial_def findByPk_def)
  have agree: "\<forall>d um. from_request demo_env alice_session (bearer ?req) = Some d \<and>
        findByPk (users alice_session) (user_id (data d)) = Some um \<longrightarrow>
        password um = password (data d) \<and> totpSecret um = totpSecret (data d)"
    using f k by auto
  have h: "from_request demo_env alice_session (bearer ?req) = Some ?d \<and>
         findByPk (users alice_session) (user_id (data ?d)) = Some alice \<and>
         constantTimeCompare demo_env (password alice) (hash demo_env (confirm_password ?req)) \<and>
         totpSecret alice = [] \<and>
         security_verify demo_env (body_setupToken ?req) \<and>
         decode demo_env (body_setupToken ?req) = Some ?p \<and>
         type_tag ?p = Some totp_setup_secret \<and> secret ?p = Some ''KVKFKRCP'' \<and>
         check demo_env (body_initialToken ?req) ''KVKFKRCP'' \<and>
         \<not> down demo_env FindByPk \<and> \<not> down demo_env Save"
    using f k demo_setup_token
    by (simp add: setup_as_def) (simp add: demo_env_def alice_def)
  note T = setup_succeeds_iff[of demo_env ?req alice_session, THEN conjunct2, THEN mp, OF agree]
  have 1: "fst (setup_2fa demo_env ?req alice_session) = Send 200 Empty"
    using T[THEN conjunct1] h by blast
  note S = T[THEN conjunct2, THEN spec, THEN spec, THEN spec, THEN spec, THEN mp, OF h]
  have sv: "save (alice\<lparr>totpSecret := ''KVKFKRCP''\<rparr>) (users alice_session) =
      [alice\<lparr>totpSecret := ''KVKFKRCP''\<rparr>, bob]"
    by (simp add: save_def alice_session_def demo_state_def initial_def alice_def bob_def)
  have 2: "users (snd (setup_2fa demo_env ?req alice_session)) =
     [alice\<lparr>totpSecret := ''KVKFKRCP''\<rparr>, bob]"
    using S[THEN conjunct1] sv by simp
  have 3: "from_request demo_env (snd (setup_2fa demo_env ?req alice_session))
      (Some ''session.a@x.com'') = Some \<lparr>data = alice\<lparr>totpSecret := ''KVKFKRCP''\<rparr>, bid = None\<rparr>"
    using S[THEN conjunct2, THEN conjunct1] by (simp add: setup_as_def)
  have ne: "''KVKFKRCP'' \<noteq> []" by simp
  have 4: "fst (setup_2fa demo_env ?req (snd (setup_2fa demo_env ?req alice_session))) =
      Send 401 Empty"
    using S[THEN conjunct2, THEN conjunct2, THEN mp, OF ne, THEN spec, THEN spec, THEN mp, OF refl] .
  from 1 2 3 4 show ?thesis by blast
qed

text \<open>
  The session of a user whose record is no longer in the table: the session resolves,
  the password matches, the snapshot has no secret, the setup token verifies with the
  setup type, and the code checks, yet the answer is 401.
\<close>

theorem setup_orphan_counterexample:
  "from_request demo_env orphan_session (Some ''session.c@x.com'') =
     Some \<lparr>data = carol, bid = Some 1\<rparr> \<and>
   constantTimeCompare demo_env (password carol) (hash demo_env ''r'') \<and>
   totpSecret carol = [] \<and>
   security_verify demo_env ''totp_setup_secret.KVKFKRCP'' \<and>
   decode demo_env ''totp_setup_secret.KVKFKRCP'' =
     Some \<lparr>userId = None, type_tag = Some totp_setup_secret, secret = Some ''KVKFKRCP'',
           payload_data = None\<rparr> \<and>
   check demo_env ''000000'' ''KVKFKRCP'' \<and>
   fst (setup_2fa demo_env (setup_as ''session.c@x.com'' ''r'') orphan_session) = Send 401 Empty"
proof -
  have f: "from_request demo_env orphan_session (Some ''session.c@x.com'') =
      Some \<lparr>data = carol, bid = Some 1\<rparr>"
    by (simp add: from_request_def orphan_session_def demo_env_def)
  have c: "constantTimeCompare demo_env (password carol) (hash demo_env ''r'')" "totpSecret carol = []"
    by (simp_all add: demo_env_def carol_def)
  have nf: "findByPk (users orphan_session) (user_id carol) = None"
    by (simp add: findByPk_def orphan_session_def demo_state_def initial_def carol_def alice_def bob_def)
  have "fst (setup_2fa demo_env (setup_as ''session.c@x.com'' ''r'') orphan_session) = Send 401 Empty"
    using f c nf demo_setup_token
    by (simp add: setup_2fa_def setup_as_def verified_payload_def Let_def)
  with f c demo_setup_token show ?thesis by simp
qed

lemma verify_rejected_state: "fst (verify env req s) = Send 401 Empty \<Longrightarrow> snd (verify env req s) = s"
  using verify_cases[of env req s] by auto

lemma login_mismatch_result:
  assumes up: "\<not> down env FindOne"
    and none: "findOne (users s) (or_empty (body_email req))
           (hashPassword env (or_empty (body_password req))) = None"
    and unlocked: "\<not> locked_out s (lockout_key req) now"
  shows "fst (login env req now s) = Send 401 (Text invalid_login)"
    and "tokenMap (snd (login env req now s)) = tokenMap s"
    and "failedLoginAttempts (snd (login env req now s)) (lockout_key req) =
      Some \<lparr>count = (case failedLoginAttempts s (lockout_key req) of
                        None \<Rightarrow> 1
                      | Some a \<Rightarrow> if count a \<ge> FAILED_ATTEMPTS_LIMIT then 1 else count a + 1),
            lastAttempt = now\<rparr>"
proof -
  let ?k = "lockout_key req"
  let ?r = "recordSuccess ?k s"
  have a: "login_try env req now ?k s =
    (Send 401 (Text invalid_login),
     recordFailure ?k now (s\<lparr>hashed := hashed s @ [or_empty (body_password req)]\<rparr>))"
    using up none by (rule login_try_mismatch)
  have none': "findOne (users ?r) (or_empty (body_email req))
           (hashPassword env (or_empty (body_password req))) = None"
    using none by simp
  have b: "login_try env req now ?k ?r =
    (Send 401 (Text invalid_login),
     recordFailure ?k now (?r\<lparr>hashed := hashed ?r @ [or_empty (body_password req)]\<rparr>))"
    using up none' by (rule login_try_mismatch)
  from login_unlocked[OF unlocked, of env]
  show "fst (login env req now s) = Send 401 (Text invalid_login)"
    by (auto simp: a b)
  from login_unlocked[OF unlocked, of env]
  show "tokenMap (snd (login env req now s)) = tokenMap s"
    by (auto simp: a b)
  show "failedLoginAttempts (snd (login env req now s)) ?k =
      Some \<lparr>count = (case failedLoginAttempts s ?k of
                        None \<Rightarrow> 1
                      | Some a \<Rightarrow> if count a \<ge> FAILED_ATTEMPTS_LIMIT then 1 else count a + 1),
            lastAttempt = now\<rparr>"
  proof (cases "failedLoginAttempts s ?k")
    case None
    then have "login env req now s = login_try env req now ?k s"
      by (simp add: login_def Let_def)
    then show ?thesis using None by (simp add: a recordFailure_entry)
  next
    case (Some e)
    show ?thesis
    proof (cases "count e \<ge> FAILED_ATTEMPTS_LIMIT")
      case False
      then have "login env req now s = login_try env req now ?k s"
        using Some by (simp add: login_def Let_def)
      then show ?thesis using Some False by (simp add: a recordFailure_entry)
    next
      case True
      then have "\<not> now - lastAttempt e < LOCK_TIME_MS"
        using unlocked Some by (simp add: locked_out_def)
      then have "login env req now s = login_try env req now ?k ?r"
        using Some True by (simp add: login_def Let_def)
      then show ?thesis using Some True by (simp add: b recordFailure_entry)
    qed
  qed
qed

text \<open>
  C7, as amended. A login attempt that is not rate-limited and whose email and password
  hash match no record is answered 401 with the invalid-credentials message, registers no
  session, and leaves for its key an entry stamped now whose count is one more than
  before, or 1 when there was no entry or the entry had expired. The second-factor
  completion never changes the tracker; when it answers 401 it leaves the whole state
  as it was, so nothing is registered.
\<close>

theorem failure_paths_tracker:
  "(\<not> locked_out s (lockout_key req) now \<and> \<not> down env FindOne \<and>
    findOne (users s) (or_empty (body_email req))
      (hashPassword env (or_empty (body_password req))) = None \<longrightarrow>
      fst (login env req now s) = Send 401 (Text invalid_login) \<and>
      tokenMap (snd (login env req now s)) = tokenMap s \<and>
      failedLoginAttempts (snd (login env req now s)) (lockout_key req) =
        Some \<lparr>count = (case failedLoginAttempts s (lockout_key req) of
                          None \<Rightarrow> 1
                        | Some a \<Rightarrow> if count a \<ge> FAILED_ATTEMPTS_LIMIT then 1 else count a + 1),
              lastAttempt = now\<rparr>) \<and>
   failedLoginAttempts (snd (verify env2 vreq s)) = failedLoginAttempts s \<and>
   (fst (verify env2 vreq s) = Send 401 Empty \<longrightarrow> snd (verify env2 vreq s) = s)"
proof (intro conjI impI; (elim conjE)?)
  assume h: "\<not> locked_out s (lockout_key req) now" "\<not> down env FindOne"
    "findOne (users s) (or_empty (body_email req))
      (hashPassword env (or_empty (body_password req))) = None"
  show "fst (login env req now s) = Send 401 (Text invalid_login)"
    using h(2,3,1) by (rule login_mismatch_result(1))
  show "tokenMap (snd (login env req now s)) = tokenMap s"
    using h(2,3,1) by (rule login_mismatch_result(2))
  show "failedLoginAttempts (snd (login env req now s)) (lockout_key req) =
        Some \<lparr>count = (case failedLoginAttempts s (lockout_key req) of
                          None \<Rightarrow> 1
                        | Some a \<Rightarrow> if count a \<ge> FAILED_ATTEMPTS_LIMIT then 1 else count a + 1),
              lastAttempt = now\<rparr>"
    using h(2,3,1) by (rule login_mismatch_result(3))
next
  show "failedLoginAttempts (snd (verify env2 vreq s)) = failedLoginAttempts s"
    by (rule verify_tracker)
next
  assume "fst (verify env2 vreq s) = Send 401 Empty"
  then show "snd (verify env2 vreq s) = s" by (rule verify_rejected_state)
qed

lemma demo_pending_verify:
  "verify demo_env
     \<lparr>body_tmpToken = ''password_valid_needs_second_factor_token.ii'', body_totpToken = ''123456''\<rparr>
     pending_state = (Send 401 Empty, pending_state)"
proof -
  have d: "demo_decode ''password_valid_needs_second_factor_token.ii'' =
      Some (no_properties\<lparr>userId := Some 2, type_tag := Some needs_second_factor\<rparr>)"
    by (simp add: demo_decode_def needs_second_factor_def)
  have u: "findByPk (users pending_state) 2 = Some bob"
    by (simp add: findByPk_def pending_state_def demo_state_def initial_def alice_def bob_def)
  show ?thesis
    using u by (simp add: verify_def verified_payload_def demo_env_def d no_properties_def)
qed

theorem failure_paths_tracker_witness:
  "fst (login demo_env (login_as ''b@x.com'' ''bad'') 5000 pending_state) =
     Send 401 (Text invalid_login) \<and>
   failedLoginAttempts (snd (login demo_env (login_as ''b@x.com'' ''bad'') 5000 pending_state))
     ''b@x.com:::1'' = Some \<lparr>count = 3, lastAttempt = 5000\<rparr> \<and>
   snd (verify demo_env
     \<lparr>body_tmpToken = ''password_valid_needs_second_factor_token.ii'', body_totpToken = ''123456''\<rparr>
     pending_state) = pending_state"
proof -
  let ?req = "login_as ''b@x.com'' ''bad''"
  let ?v = "\<lparr>body_tmpToken = ''password_valid_needs_second_factor_token.ii'',
            body_totpToken = ''123456''\<rparr>"
  have e: "failedLoginAttempts pending_state ''b@x.com:::1'' = Some \<lparr>count = 2, lastAttempt = 1000\<rparr>"
    by (simp add: pending_state_def)
  have h: "\<not> locked_out pending_state (lockout_key ?req) 5000 \<and> \<not> down demo_env FindOne \<and>
    findOne (users pending_state) (or_empty (body_email ?req))
      (hashPassword demo_env (or_empty (body_password ?req))) = None"
    by (simp add: locked_out_def demo_lockout_key e FAILED_ATTEMPTS_LIMIT_def)
       (simp add: findOne_def pending_state_def demo_state_def initial_def login_as_def
          or_empty_def demo_env_def alice_def bob_def)
  have r: "fst (verify demo_env ?v pending_state) = Send 401 Empty"
    by (simp add: demo_pending_verify)
  note T = failure_paths_tracker[of pending_state ?req 5000 demo_env demo_env ?v]
  from T[THEN conjunct1, THEN mp, OF h] T[THEN conjunct2, THEN conjunct2, THEN mp, OF r]
  show ?thesis by (simp add: demo_lockout_key e FAILED_ATTEMPTS_LIMIT_def)
qed

text \<open>
  A failed second-factor completion: the pending token of the second user is verified
  and of the right type, the code is wrong, the answer is 401, and the entry of the
  user's lockout key still has the count 2 it had.
\<close>

theorem verify_failure_counterexample:
  "decode demo_env ''password_valid_needs_second_factor_token.ii'' =
     Some \<lparr>userId = Some 2, type_tag = Some needs_second_factor, secret = None,
           payload_data = None\<rparr> \<and>
   findByPk (users pending_state) 2 = Some bob \<and>
   \<not> check demo_env ''123456'' (totpSecret bob) \<and>
   failedLoginAttempts pending_state ''b@x.com:::1'' = Some \<lparr>count = 2, lastAttempt = 1000\<rparr> \<and>
   fst (verify demo_env
     \<lparr>body_tmpToken = ''password_valid_needs_second_factor_token.ii'', body_totpToken = ''123456''\<rparr>
     pending_state) = Send 401 Empty \<and>
   failedLoginAttempts (snd (verify demo_env
     \<lparr>body_tmpToken = ''password_valid_needs_second_factor_token.ii'', body_totpToken = ''123456''\<rparr>
     pending_state)) ''b@x.com:::1'' = Some \<lparr>count = 2, lastAttempt = 1000\<rparr>"
proof -
  have d: "decode demo_env ''password_valid_needs_second_factor_token.ii'' =
     Some \<lparr>userId = Some 2, type_tag = Some needs_second_factor, secret = None,
           payload_data = None\<rparr>"
    by (simp add: demo_env_def demo_decode_def needs_second_factor_def no_properties_def)
  have u: "findByPk (users pending_state) 2 = Some bob"
    by (simp add: findByPk_def pending_state_def demo_state_def initial_def alice_def bob_def)
  have c: "\<not> check demo_env ''123456'' (totpSecret bob)"
    by (simp add: demo_env_def)
  have e: "failedLoginAttempts pending_state ''b@x.com:::1'' = Some \<lparr>count = 2, lastAttempt = 1000\<rparr>"
    by (simp add: pending_state_def)
  from d u c e show ?thesis by (simp add: demo_pending_verify)
qed

section \<open>The TOTP window\<close>

lemma window_offsets_1: "window_offsets authenticator_window = [0, - 1, 1]"
  by (simp add: window_offsets_def authenticator_window_def)

text \<open>
  C9. With the window option the source sets, the check accepts a code exactly when it is
  the code of the current time step, of the step before it or of the step after it. So
  the code of any step at distance at most one is accepted, and a code that is the code
  of none of these three steps, such as one valid only two or more steps away, is
  rejected.
\<close>

theorem authenticator_check_window:
  "(authenticator_check totp authenticator_window now code sec \<longleftrightarrow>
      code = totp sec (now div time_step_ms - 1) \<or>
      code = totp sec (now div time_step_ms) \<or>
      code = totp sec (now div time_step_ms + 1)) \<and>
   (\<forall>d. \<bar>d\<bar> \<le> 1 \<longrightarrow>
      authenticator_check totp authenticator_window now (totp sec (now div time_step_ms + d)) sec) \<and>
   (\<forall>d. (\<forall>e. \<bar>e\<bar> \<le> 1 \<longrightarrow>
            totp sec (now div time_step_ms + d) \<noteq> totp sec (now div time_step_ms + e)) \<longrightarrow>
      \<not> authenticator_check totp authenticator_window now (totp sec (now div time_step_ms + d)) sec)"
proof (intro conjI allI impI)
  show iff: "authenticator_check totp authenticator_window now code sec \<longleftrightarrow>
      code = totp sec (now div time_step_ms - 1) \<or>
      code = totp sec (now div time_step_ms) \<or>
      code = totp sec (now div time_step_ms + 1)" for code
    by (auto simp: authenticator_check_def window_offsets_1)
  fix d :: int
  {
    assume "\<bar>d\<bar> \<le> 1"
    then have "d = - 1 \<or> d = 0 \<or> d = 1" by arith
    then show "authenticator_check totp authenticator_window now
        (totp sec (now div time_step_ms + d)) sec"
      unfolding iff by auto
  }
  {
    assume far: "\<forall>e. \<bar>e\<bar> \<le> 1 \<longrightarrow>
            totp sec (now div time_step_ms + d) \<noteq> totp sec (now div time_step_ms + e)"
    from far[THEN spec, of "- 1"] far[THEN spec, of 0] far[THEN spec, of 1]
    show "\<not> authenticator_check totp authenticator_window now
        (totp sec (now div time_step_ms + d)) sec"
      unfolding iff by simp
  }
qed

theorem authenticator_check_window_witness:
  "authenticator_check (\<lambda>s c. replicate (nat c) CHR ''x'') authenticator_window 95000 ''xxxx'' ''s'' \<and>
   authenticator_check (\<lambda>s c. replicate (nat c) CHR ''x'') authenticator_window 95000 ''xx'' ''s'' \<and>
   \<not> authenticator_check (\<lambda>s c. replicate (nat c) CHR ''x'') authenticator_window 95000 ''xxxxx'' ''s''"
proof -
  let ?totp = "\<lambda>(s::string) c. replicate (nat c) CHR ''x''"
  have c: "(95000::int) div time_step_ms = 3"
    by (simp add: time_step_ms_def)
  have v: "?totp ''s'' (3 + 1) = ''xxxx''" "?totp ''s'' (3 + - 1) = ''xx''" "?totp ''s'' (3 + 2) = ''xxxxx''"
    by (simp_all add: eval_nat_numeral)
  note T = authenticator_check_window[of ?totp 95000 _ "''s''"]
  have near: "\<bar>1::int\<bar> \<le> 1" "\<bar>- 1::int\<bar> \<le> 1" by simp_all
  have far: "\<forall>e. \<bar>e\<bar> \<le> 1 \<longrightarrow>
      ?totp ''s'' (95000 div time_step_ms + 2) \<noteq> ?totp ''s'' (95000 div time_step_ms + e)"
  proof (intro allI impI)
    fix e :: int
    assume "\<bar>e\<bar> \<le> 1"
    then have "length (?totp ''s'' (3 + 2)) \<noteq> length (?totp ''s'' (3 + e))"
      by simp
    then show "?totp ''s'' (95000 div time_step_ms + 2) \<noteq> ?totp ''s'' (95000 div time_step_ms + e)"
      unfolding c by metis
  qed
  from T[THEN conjunct2, THEN conjunct1, THEN spec, THEN mp, OF near(1)]
    T[THEN conjunct2, THEN conjunct1, THEN spec, THEN mp, OF near(2)]
    T[THEN conjunct2, THEN conjunct2, THEN spec, THEN mp, OF far]
  show ?thesis unfolding c v by blast
qed

section \<open>Properties of the file route\<close>

lemma sanitize_no_separator: "c \<in> set (sanitize xs) \<Longrightarrow> \<not> separator c"
  by (induction xs rule: sanitize.induct) (auto split: if_splits)

lemma split_path_nonempty: "split_path xs \<noteq> []"
  by (induction xs) (auto split: list.splits)

lemma split_path_append: "split_path (xs @ CHR ''/'' # ys) = split_path xs @ split_path ys"
  by (induction xs) (auto split: list.splits simp: split_path_nonempty)

lemma split_path_plain: "CHR ''/'' \<notin> set xs \<Longrightarrow> split_path xs = [xs]"
  by (induction xs) auto

lemma split_path_segments: "x \<in> set (split_path xs) \<Longrightarrow> CHR ''/'' \<notin> set x"
  by (induction xs arbitrary: x) (auto split: if_splits list.splits)

lemma normalize_append:
  "normalize_segments (xs @ ys) st = normalize_segments ys (rev (normalize_segments xs st))"
  by (induction xs st rule: normalize_segments.induct) auto

lemma normalize_plain:
  "\<forall>x\<in>set xs. plain_segment x \<Longrightarrow> normalize_segments xs st = rev st @ xs"
  by (induction xs arbitrary: st) (auto simp: plain_segment_def)

lemma normalize_result_plain:
  "\<forall>x\<in>set st. plain_segment x \<Longrightarrow> \<forall>x\<in>set xs. CHR ''/'' \<notin> set x \<Longrightarrow>
   \<forall>x\<in>set (normalize_segments xs st). plain_segment x"
proof (induction xs st rule: normalize_segments.induct)
  case (1 st)
  then show ?case by simp
next
  case (2 x xs st)
  have tl: "\<forall>y\<in>set (tl st). plain_segment y"
    using 2(4) by (cases st) auto
  have push: "\<not> (x = [] \<or> x = ''.'') \<Longrightarrow> x \<noteq> ''..'' \<Longrightarrow> \<forall>y\<in>set (x # st). plain_segment y"
    using 2(4,5) by (auto simp: plain_segment_def)
  from 2 tl push show ?case by auto
qed

lemma split_join:
  "\<forall>x\<in>set S. plain_segment x \<Longrightarrow> S \<noteq> [] \<Longrightarrow> split_path (join_segments S) = S"
proof (induction S rule: join_segments.induct)
  case 1
  then show ?case by simp
next
  case (2 x)
  then show ?case by (simp add: split_path_plain plain_segment_def)
next
  case (3 x y ys)
  then have "split_path (join_segments (y # ys)) = y # ys" by simp
  moreover have "split_path x = [x]"
    using 3(2) by (simp add: split_path_plain plain_segment_def)
  ultimately show ?case by (simp add: split_path_append)
qed

lemma join_snoc: "S \<noteq> [] \<Longrightarrow> join_segments (S @ [n]) = join_segments S @ ''/'' @ n"
  by (induction S rule: join_segments.induct) auto

lemma length_join_butlast: "length (join_segments (butlast S)) \<le> length (join_segments S)"
  by (induction S rule: join_segments.induct) auto

lemma base_segments_plain:
  "\<forall>x\<in>set (normalize_segments (split_path cwd) [] @ [''ftp'']). plain_segment x"
proof -
  have "\<forall>x\<in>set (normalize_segments (split_path cwd) []). plain_segment x"
    by (rule normalize_result_plain) (simp_all add: split_path_segments)
  moreover have "plain_segment ''ftp''" by (simp add: plain_segment_def)
  ultimately show ?thesis by simp
qed

lemma split_ftp: "split_path ''ftp//'' = [''ftp'', [], []]"
  by simp

lemma base_path:
  "path_resolve cwd [''ftp/''] =
     ''/'' @ join_segments (normalize_segments (split_path cwd) [] @ [''ftp''])"
proof (cases "cwd = []")
  case True
  then show ?thesis by (simp add: path_resolve_def)
next
  case False
  then have "prepend_paths (rev [''ftp/''] @ [cwd]) [] = cwd @ CHR ''/'' # ''ftp//''"
    by simp
  then have "normalize_segments (split_path (prepend_paths (rev [''ftp/''] @ [cwd]) [])) [] =
      normalize_segments [''ftp'', [], []] (rev (normalize_segments (split_path cwd) []))"
    by (simp only: split_path_append split_ftp normalize_append)
  then show ?thesis by (simp add: path_resolve_def)
qed

lemma split_rooted:
  assumes plain: "\<forall>x\<in>set S. plain_segment x" and ne: "S \<noteq> []"
    and rest: "split_path r = rs"
  shows "split_path (CHR ''/'' # join_segments S @ CHR ''/'' # r) = [] # S @ rs"
proof -
  have "split_path (join_segments S @ CHR ''/'' # r) = S @ rs"
    unfolding split_path_append split_join[OF plain ne] rest ..
  then show ?thesis by simp
qed

lemma normalize_rooted:
  assumes plain: "\<forall>x\<in>set S. plain_segment x"
  shows "normalize_segments ([] # S @ rs) [] = normalize_segments rs (rev S)"
proof -
  have "normalize_segments ([] # S @ rs) [] = normalize_segments (S @ rs) []"
    by simp
  also have "\<dots> = normalize_segments rs (rev (normalize_segments S []))"
    by (rule normalize_append)
  also have "normalize_segments S [] = S"
    using normalize_plain[OF plain, of "[]"] by simp
  finally show ?thesis .
qed

lemma prepend_base:
  "prepend_paths (rev [CHR ''/'' # b, n] @ [cwd]) [] =
     (if n = [] then CHR ''/'' # b @ ''/''
      else if hd n = CHR ''/'' then n @ ''/''
      else CHR ''/'' # b @ CHR ''/'' # n @ ''/'')"
  by simp

lemma split_tail: "CHR ''/'' \<notin> set n \<Longrightarrow> split_path (n @ ''/'') = [n, []]"
  using split_path_append[of n "[]"] by (simp add: split_path_plain)

lemma normalize_tail:
  "normalize_segments [n, []] st =
     (if n = [] \<or> n = ''.'' then rev st else if n = ''..'' then rev (tl st) else rev st @ [n])"
  by simp

lemma resolve_rooted:
  assumes plain: "\<forall>x\<in>set S. plain_segment x" and ne: "S \<noteq> []"
    and n: "CHR ''/'' \<notin> set n"
  shows "path_resolve cwd [CHR ''/'' # join_segments S, n] =
     (if n = [] \<or> n = ''.'' then CHR ''/'' # join_segments S
      else if n = ''..'' then CHR ''/'' # join_segments (butlast S)
      else CHR ''/'' # join_segments S @ CHR ''/'' # n)"
proof (cases "n = []")
  case True
  have p: "prepend_paths (rev [CHR ''/'' # join_segments S, n] @ [cwd]) [] =
      CHR ''/'' # join_segments S @ CHR ''/'' # []"
    unfolding prepend_base using True by simp
  have s: "split_path (CHR ''/'' # join_segments S @ CHR ''/'' # []) = [] # S @ [[]]"
    using plain ne by (rule split_rooted) simp
  have "normalize_segments ([] # S @ [[]]) [] = normalize_segments [[]] (rev S)"
    using plain by (rule normalize_rooted)
  then have "normalize_segments ([] # S @ [[]]) [] = S" by simp
  then show ?thesis unfolding path_resolve_def p s using True by simp
next
  case False
  then have hd: "hd n \<noteq> CHR ''/''" using n by (cases n) auto
  have p: "prepend_paths (rev [CHR ''/'' # join_segments S, n] @ [cwd]) [] =
      CHR ''/'' # join_segments S @ CHR ''/'' # (n @ ''/'')"
    unfolding prepend_base using False hd by simp
  have s: "split_path (CHR ''/'' # join_segments S @ CHR ''/'' # (n @ ''/'')) = [] # S @ [n, []]"
    using plain ne split_tail[OF n] by (rule split_rooted)
  have nz: "normalize_segments ([] # S @ [n, []]) [] = normalize_segments [n, []] (rev S)"
    using plain by (rule normalize_rooted)
  have "normalize_segments ([] # S @ [n, []]) [] =
      (if n = ''.'' then S else if n = ''..'' then butlast S else S @ [n])"
    unfolding nz normalize_tail using False butlast_rev[of "rev S"] by simp
  then have "path_resolve cwd [CHR ''/'' # join_segments S, n] =
      ''/'' @ join_segments (if n = ''.'' then S else if n = ''..'' then butlast S else S @ [n])"
    unfolding path_resolve_def p s by simp
  then show ?thesis using False join_snoc[OF ne, of n] by simp
qed

lemma resolve_in_base:
  assumes n: "CHR ''/'' \<notin> set n"
  shows "path_resolve cwd [path_resolve cwd [''ftp/''], n] =
     (if n = [] \<or> n = ''.'' then path_resolve cwd [''ftp/'']
      else if n = ''..'' then
        CHR ''/'' # join_segments (butlast (normalize_segments (split_path cwd) [] @ [''ftp'']))
      else path_resolve cwd [''ftp/''] @ CHR ''/'' # n)"
proof -
  let ?S = "normalize_segments (split_path cwd) [] @ [''ftp'']"
  have base: "path_resolve cwd [''ftp/''] = CHR ''/'' # join_segments ?S"
    using base_path[of cwd] by simp
  have ne: "?S \<noteq> []" by simp
  show ?thesis
    unfolding base append_Cons by (rule resolve_rooted[OF base_segments_plain ne n])
qed

lemma escape_not_prefixed:
  "\<not> prefix (CHR ''/'' # join_segments S @ ''/'') (CHR ''/'' # join_segments (butlast S))"
proof
  assume "prefix (CHR ''/'' # join_segments S @ ''/'') (CHR ''/'' # join_segments (butlast S))"
  then have "length (CHR ''/'' # join_segments S @ ''/'') \<le> length (CHR ''/'' # join_segments (butlast S))"
    by (rule prefix_length_le)
  then show False using length_join_butlast[of S] by simp
qed

lemma verify_file_sent:
  assumes sent: "verify_file cutOff cwd file = SendFile p"
  shows "p = path_resolve cwd [path_resolve cwd [''ftp/''], sanitize (cutOff file)]"
    and "p = path_resolve cwd [''ftp/''] @ ''/'' @ sanitize (cutOff file)"
    and "sanitize (cutOff file) \<noteq> []" and "sanitize (cutOff file) \<noteq> ''.''"
    and "sanitize (cutOff file) \<noteq> ''..''"
    and "endsWith file ''.md'' \<or> endsWith file ''.pdf'' \<or> file = ''incident-support.kdbx''"
proof -
  let ?n = "sanitize (cutOff file)"
  let ?base = "path_resolve cwd [''ftp/'']"
  let ?S = "normalize_segments (split_path cwd) [] @ [''ftp'']"
  have base: "?base = CHR ''/'' # join_segments ?S"
    using base_path[of cwd] by simp
  have n: "CHR ''/'' \<notin> set ?n"
    using sanitize_no_separator[of "CHR ''/''" "cutOff file"] by (auto simp: separator_def)
  from sent have allow: "file \<noteq> [] \<and> (endsWithAllowlistedFileType file \<or> file = ''incident-support.kdbx'')"
    by (auto simp: verify_file_def split: if_splits)
  with sent have pre: "prefix (?base @ ''/'') (path_resolve cwd [?base, ?n])"
    and p: "p = path_resolve cwd [?base, ?n]"
    by (auto simp: verify_file_def Let_def split: if_splits)
  note r = resolve_in_base[OF n, of cwd]
  show "p = path_resolve cwd [?base, ?n]" by (rule p)
  show "endsWith file ''.md'' \<or> endsWith file ''.pdf'' \<or> file = ''incident-support.kdbx''"
    using allow by (auto simp: endsWithAllowlistedFileType_def)
  have not_here: "\<not> (?n = [] \<or> ?n = ''.'')"
  proof
    assume "?n = [] \<or> ?n = ''.''"
    then have "path_resolve cwd [?base, ?n] = ?base" using r by simp
    with pre show False by simp
  qed
  then show "?n \<noteq> []" "?n \<noteq> ''.''" by simp_all
  show up: "?n \<noteq> ''..''"
  proof
    assume dd: "?n = ''..''"
    then have "path_resolve cwd [?base, ?n] = CHR ''/'' # join_segments (butlast ?S)"
      using r by simp
    with pre have "prefix (CHR ''/'' # join_segments ?S @ ''/'') (CHR ''/'' # join_segments (butlast ?S))"
      unfolding base by simp
    then show False using escape_not_prefixed by blast
  qed
  from r not_here up have "path_resolve cwd [?base, ?n] = ?base @ CHR ''/'' # ?n"
    by simp
  then show "p = ?base @ ''/'' @ ?n" using p by simp
qed

lemma servePublicFiles_answers:
  "(\<exists>p. servePublicFiles cutOff cwd file = SendFile p) \<or>
   (\<exists>msg. servePublicFiles cutOff cwd file = Next (Some 403) msg)"
  by (simp add: servePublicFiles_def verify_file_def Let_def)

text \<open>
  C10, as amended. A file parameter that contains a slash or a backslash is answered
  403. A file is sent only when the file parameter ends in \<^verbatim>\<open>.md\<close> or \<^verbatim>\<open>.pdf\<close>
  or is \<^verbatim>\<open>incident-support.kdbx\<close>; the name of the file sent is the parameter after
  the null-byte cut and the sanitizing, and nothing is said of its ending. The path sent
  is the resolution, against the resolved \<^verbatim>\<open>ftp/\<close> directory, of the sanitized name
  (slashes, backslashes and \<^verbatim>\<open>../\<close> fragments removed), and it is that directory, a
  slash, and the sanitized name, which is a plain entry name: not empty, not \<^verbatim>\<open>.\<close>
  or \<^verbatim>\<open>..\<close>, and free of slashes and backslashes. Every other request is answered
  403. This holds whatever the null-byte cut returns.
\<close>

theorem servePublicFiles_confined:
  "((CHR ''/'' \<in> set file \<or> backslash \<in> set file) \<longrightarrow>
      servePublicFiles cutOff cwd file = Next (Some 403) no_slashes_error) \<and>
   (\<forall>p. servePublicFiles cutOff cwd file = SendFile p \<longrightarrow>
      (suffix ''.md'' file \<or> suffix ''.pdf'' file \<or> file = ''incident-support.kdbx'') \<and>
      p = path_resolve cwd [path_resolve cwd [''ftp/''], sanitize (cutOff file)] \<and>
      p = path_resolve cwd [''ftp/''] @ ''/'' @ sanitize (cutOff file) \<and>
      plain_segment (sanitize (cutOff file)) \<and>
      backslash \<notin> set (sanitize (cutOff file))) \<and>
   ((\<exists>p. servePublicFiles cutOff cwd file = SendFile p) \<or>
    (\<exists>msg. servePublicFiles cutOff cwd file = Next (Some 403) msg))"
proof (intro conjI allI impI)
  assume "CHR ''/'' \<in> set file \<or> backslash \<in> set file"
  then show "servePublicFiles cutOff cwd file = Next (Some 403) no_slashes_error"
    by (auto simp: servePublicFiles_def)
next
  fix p
  assume sent: "servePublicFiles cutOff cwd file = SendFile p"
  then have v: "verify_file cutOff cwd file = SendFile p"
    by (auto simp: servePublicFiles_def split: if_splits)
  note f = verify_file_sent[OF v]
  have sep: "\<And>c. c \<in> set (sanitize (cutOff file)) \<Longrightarrow> \<not> separator c"
    by (rule sanitize_no_separator)
  show "suffix ''.md'' file \<or> suffix ''.pdf'' file \<or> file = ''incident-support.kdbx''"
    using f(6) by (simp add: endsWith_def)
  show "p = path_resolve cwd [path_resolve cwd [''ftp/''], sanitize (cutOff file)]"
    by (rule f(1))
  show "p = path_resolve cwd [''ftp/''] @ ''/'' @ sanitize (cutOff file)"
    by (rule f(2))
  show "plain_segment (sanitize (cutOff file))"
    unfolding plain_segment_def using f(3,4,5) sep[of "CHR ''/''"] by (auto simp: separator_def)
  show "backslash \<notin> set (sanitize (cutOff file))"
    using sep[of backslash] by (auto simp: separator_def)
next
  show "(\<exists>p. servePublicFiles cutOff cwd file = SendFile p) \<or>
    (\<exists>msg. servePublicFiles cutOff cwd file = Next (Some 403) msg)"
    by (rule servePublicFiles_answers)
qed

theorem servePublicFiles_confined_witness:
  "servePublicFiles cutOffPoisonNullByte ''/app'' ''a/b.md'' = Next (Some 403) no_slashes_error \<and>
   servePublicFiles cutOffPoisonNullByte ''/app'' ''legal.md'' = SendFile ''/app/ftp/legal.md'' \<and>
   ''/app/ftp/legal.md'' = path_resolve ''/app'' [''ftp/''] @ ''/'' @ sanitize (cutOffPoisonNullByte ''legal.md'') \<and>
   plain_segment (sanitize (cutOffPoisonNullByte ''legal.md'')) \<and>
   servePublicFiles cutOffPoisonNullByte ''/app'' ''..%00.md'' = Next (Some 403) traversal_error \<and>
   servePublicFiles cutOffPoisonNullByte ''/app'' ''notes.txt'' = Next (Some 403) allowlist_error"
proof -
  have s: "CHR ''/'' \<in> set ''a/b.md'' \<or> backslash \<in> set ''a/b.md''" by simp
  have a: "servePublicFiles cutOffPoisonNullByte ''/app'' ''legal.md'' = SendFile ''/app/ftp/legal.md''"
    by code_simp
  have c: "servePublicFiles cutOffPoisonNullByte ''/app'' ''..%00.md'' = Next (Some 403) traversal_error"
    by code_simp
  have d: "servePublicFiles cutOffPoisonNullByte ''/app'' ''notes.txt'' = Next (Some 403) allowlist_error"
    by code_simp
  note T = servePublicFiles_confined[of _ cutOffPoisonNullByte "''/app''"]
  from T[of "''a/b.md''", THEN conjunct1, THEN mp, OF s]
    T[of "''legal.md''", THEN conjunct2, THEN conjunct1, THEN spec, THEN mp, OF a]
    a c d
  show ?thesis by blast
qed

text \<open>
  A file parameter that passes the allowlist with \<^verbatim>\<open>.md\<close> behind a null byte: the
  file sent is \<^verbatim>\<open>package.json.bak\<close>, whose name ends in neither \<^verbatim>\<open>.md\<close> nor
  \<^verbatim>\<open>.pdf\<close> and is not \<^verbatim>\<open>incident-support.kdbx\<close>.
\<close>

theorem servePublicFiles_null_byte_counterexample:
  "servePublicFiles cutOffPoisonNullByte ''/app'' ''package.json.bak%00.md'' =
     SendFile ''/app/ftp/package.json.bak'' \<and>
   sanitize (cutOffPoisonNullByte ''package.json.bak%00.md'') = ''package.json.bak'' \<and>
   \<not> suffix ''.md'' ''package.json.bak'' \<and>
   \<not> suffix ''.pdf'' ''package.json.bak'' \<and>
   ''package.json.bak'' \<noteq> ''incident-support.kdbx''"
  by code_simp

end

